theory Spec2Isabelle
  imports Main "HOL-Library.Sublist"
begin

section \<open>The launcher \<open>git_sync_runner.py\<close>\<close>

text \<open>
  The launcher is a straight-line Python script. Everything it does is an effect on its
  surroundings: it reads its own location and the clock, appends to two log files, prints,
  spawns \<open>/bin/bash\<close> on the sync script and waits for it. The model threads a
  \<open>state\<close> (file contents, what has been written to the launcher's standard output, the
  number of clock readings so far and the list of effects in program order) through the
  statements of the script, and takes whatever the surroundings answer from a \<open>world\<close>:
  every call that can fail asks the world whether it does.

  What the model fixes about the surroundings: a call that opens a file, writes to it or
  prints either raises and changes nothing or succeeds as a whole (a write that the
  operating system refuses only when the file is closed counts as failing at that write);
  the content of a file is the text that has been written to it, different paths name
  different files, and nothing but the launcher writes to a file during the run; both calls
  of \<open>os.path.abspath(__file__)\<close> give the same answer; paths follow POSIX rules.
\<close>

subsection \<open>Python values\<close>

text \<open>
  An exception raised by a library call. \<open>PyException d\<close> is an instance of
  \<open>Exception\<close> whose \<open>str()\<close> is \<open>d\<close>; \<open>PyBaseException d\<close> is one that is not
  derived from \<open>Exception\<close> (\<open>KeyboardInterrupt\<close>), which \<open>except Exception\<close>
  lets through.
\<close>

datatype pyexc = PyException string | PyBaseException string

text \<open>What \<open>process.communicate()\<close> does: it never returns (the sync script is a loop, or
  something else keeps the pipes open), it raises, or it returns \<open>(out, err)\<close> and leaves
  \<open>process.returncode\<close> set.\<close>

datatype comm_result = Blocks | Raises pyexc | Completed string string int

text \<open>The fields of \<open>time.localtime()\<close> that the format string reads.\<close>

record tm =
  tm_year :: nat
  tm_mon :: nat
  tm_mday :: nat
  tm_hour :: nat
  tm_min :: nat
  tm_sec :: nat

text \<open>The calls of the script that open a file, write to one or print, by source line:
  28, 29, 30; 32, 33, 34; 46, 47, 48, 50; 55, 56.\<close>

datatype site =
    Open_startup_log
  | Write_start_line
  | Write_path_line
  | Print_start
  | Print_path
  | Print_logs
  | Open_error_log
  | Write_terminated
  | Write_return_code
  | Write_error_output
  | Open_error_log_handler
  | Write_exception

record world =
  abspath_file :: "pyexc + string"
  getpid :: nat
  system_output :: string
  localtime :: "nat \<Rightarrow> tm"
  io_error :: "site \<Rightarrow> pyexc option"
  spawn_error :: "pyexc option"
  child_exit :: "int option"
  communicate :: comm_result
  decode :: "string \<Rightarrow> pyexc + string"
  flush_fails :: bool

text \<open>
  \<open>abspath_file\<close> is the result of \<open>os.path.abspath(__file__)\<close>; \<open>system_output\<close> is
  what the pipeline of line 20 writes to the launcher's standard output; \<open>localtime k\<close> is
  the local time at the \<open>k\<close>-th call of \<open>time.strftime\<close>; \<open>io_error\<close> is the exception
  that a call raises, if any (the log can not be opened, the text can not be encoded in the
  log's codec, the device is full, the pipe is closed); \<open>spawn_error\<close> is an
  operating-system failure of \<open>fork\<close>/\<open>exec\<close> other than a missing executable;
  \<open>child_exit\<close> is the exit code with which the sync script ends, if it ends, which the
  launcher never sees but through \<open>communicate\<close>, the behaviour of
  \<open>process.communicate()\<close>; \<open>decode\<close> is \<open>bytes.decode()\<close>; \<open>flush_fails\<close>
  says that the interpreter can not flush the launcher's buffered standard output when it
  exits.
\<close>

datatype event =
    Setenv string string
  | System string
  | Append string string
  | Print string
  | Spawn "string list"
  | Wait

record state =
  files :: "string \<rightharpoonup> string"
  stdout :: string
  clock :: nat
  events :: "event list"

text \<open>How the try statement's body ends: it never returns normally.\<close>

datatype completion = Raised pyexc | SysExit int | Hangs

text \<open>How the run of the launcher ends.\<close>

datatype outcome = Exited int | Uncaught pyexc | Blocked

subsection \<open>Formatting\<close>

definition nl :: string where
  "nl = [CHR 0x0A]"

definition digit_char :: "nat \<Rightarrow> char" where
  "digit_char d = char_of (48 + d)"

fun str_nat :: "nat \<Rightarrow> string" where
  "str_nat n = (if n < 10 then [digit_char n] else str_nat (n div 10) @ [digit_char (n mod 10)])"

declare str_nat.simps [simp del]

definition str_int :: "int \<Rightarrow> string" where
  "str_int i = (if i < 0 then CHR ''-'' # str_nat (nat (- i)) else str_nat (nat i))"

definition pad2 :: "nat \<Rightarrow> string" where
  "pad2 n = (if n < 10 then CHR ''0'' # str_nat n else str_nat n)"

text \<open>\<open>time.strftime('%Y-%m-%d %H:%M:%S')\<close> on a given local time.\<close>

definition strftime :: "tm \<Rightarrow> string" where
  "strftime t = str_nat (tm_year t) @ ''-'' @ pad2 (tm_mon t) @ ''-'' @ pad2 (tm_mday t) @ '' ''
     @ pad2 (tm_hour t) @ '':'' @ pad2 (tm_min t) @ '':'' @ pad2 (tm_sec t)"

subsection \<open>Paths (\<open>posixpath\<close>)\<close>

definition os_path_dirname :: "string \<Rightarrow> string" where
  "os_path_dirname p =
     (let head = rev (dropWhile (\<lambda>c. c \<noteq> CHR ''/'') (rev p))
      in if head \<noteq> [] \<and> head \<noteq> replicate (length head) (CHR ''/'')
         then rev (dropWhile (\<lambda>c. c = CHR ''/'') (rev head))
         else head)"

definition os_path_join :: "string \<Rightarrow> string \<Rightarrow> string" where
  "os_path_join a b =
     (if take 1 b = ''/'' then b
      else if a = [] \<or> last a = CHR ''/'' then a @ b
      else a @ ''/'' @ b)"

definition SCRIPT_PATH :: "string \<Rightarrow> string" where
  "SCRIPT_PATH file = os_path_join (os_path_dirname file) ''auto_git_sync.sh''"

definition REPO_PATH :: "string \<Rightarrow> string" where
  "REPO_PATH file = os_path_dirname file"

definition LOG_FILE :: "string \<Rightarrow> string" where
  "LOG_FILE file = os_path_join (REPO_PATH file) ''sync_log.txt''"

definition ERROR_LOG :: "string \<Rightarrow> string" where
  "ERROR_LOG file = os_path_join (REPO_PATH file) ''sync_error.log''"

subsection \<open>Primitive effects\<close>

definition content :: "state \<Rightarrow> string \<Rightarrow> string" where
  "content s path = (case files s path of None \<Rightarrow> [] | Some c \<Rightarrow> c)"

text \<open>A text that reaches the end of a file.\<close>

definition append_file :: "string \<Rightarrow> string \<Rightarrow> state \<Rightarrow> state" where
  "append_file path text s =
     s\<lparr>files := (files s)(path \<mapsto> content s path @ text),
       events := events s @ [Append path text]\<rparr>"

text \<open>\<open>open(path, 'a')\<close>: it raises, or the file is there afterwards, created empty when it
  was absent.\<close>

definition open_append :: "world \<Rightarrow> site \<Rightarrow> string \<Rightarrow> state \<Rightarrow> (pyexc + unit) \<times> state" where
  "open_append w st path s =
     (case io_error w st of
        Some e \<Rightarrow> (Inl e, s)
      | None \<Rightarrow> (Inr (), s\<lparr>files := (files s)(path \<mapsto> content s path)\<rparr>))"

text \<open>\<open>f.write(text)\<close> on a file opened in append mode: it raises, or the text goes to the
  end of the file.\<close>

definition f_write :: "world \<Rightarrow> site \<Rightarrow> string \<Rightarrow> string \<Rightarrow> state \<Rightarrow> (pyexc + unit) \<times> state" where
  "f_write w st path text s =
     (case io_error w st of
        Some e \<Rightarrow> (Inl e, s)
      | None \<Rightarrow> (Inr (), append_file path text s))"

definition print :: "world \<Rightarrow> site \<Rightarrow> string \<Rightarrow> state \<Rightarrow> (pyexc + unit) \<times> state" where
  "print w st text s =
     (case io_error w st of
        Some e \<Rightarrow> (Inl e, s)
      | None \<Rightarrow> (Inr (), s\<lparr>stdout := stdout s @ text @ nl, events := events s @ [Print text]\<rparr>))"

text \<open>One statement after another: an exception of the first skips the second.\<close>

definition and_then :: "(pyexc + unit) \<times> state \<Rightarrow> (state \<Rightarrow> (pyexc + 'a) \<times> state) \<Rightarrow> (pyexc + 'a) \<times> state" where
  "and_then r k = (case r of (Inl e, s) \<Rightarrow> (Inl e, s) | (Inr _, s) \<Rightarrow> k s)"

definition setenv :: "string \<Rightarrow> string \<Rightarrow> state \<Rightarrow> state" where
  "setenv k v s = s\<lparr>events := events s @ [Setenv k v]\<rparr>"

text \<open>\<open>os.system(cmd)\<close>: the command runs with the launcher's standard output as its own.\<close>

definition os_system :: "world \<Rightarrow> string \<Rightarrow> state \<Rightarrow> state" where
  "os_system w cmd s = s\<lparr>stdout := stdout s @ system_output w, events := events s @ [System cmd]\<rparr>"

definition time_strftime :: "world \<Rightarrow> state \<Rightarrow> string \<times> state" where
  "time_strftime w s = (strftime (localtime w (clock s)), s\<lparr>clock := Suc (clock s)\<rparr>)"

text \<open>
  \<open>subprocess.Popen(args, ...)\<close>: the program that is executed is \<open>args[0]\<close>. A missing
  executable raises \<open>FileNotFoundError\<close>; the other arguments are not looked at.
\<close>

definition Popen :: "world \<Rightarrow> string list \<Rightarrow> state \<Rightarrow> (pyexc + unit) \<times> state" where
  "Popen w args s =
     (case spawn_error w of
        Some e \<Rightarrow> (Inl e, s)
      | None \<Rightarrow>
          (case args of
             [] \<Rightarrow> (Inl (PyException ''list index out of range''), s)
           | prog # _ \<Rightarrow>
               if files s prog = None
               then (Inl (PyException (''[Errno 2] No such file or directory: '' @ [CHR 0x27] @ prog @ [CHR 0x27])), s)
               else (Inr (), s\<lparr>events := events s @ [Spawn args]\<rparr>)))"

text \<open>\<open>sys.exit(n)\<close> reaching the top of the script: the interpreter flushes the standard
  streams, and ends with status 120 in place of \<open>n\<close> when that fails.\<close>

definition sys_exit :: "world \<Rightarrow> int \<Rightarrow> outcome" where
  "sys_exit w n = Exited (if flush_fails w then 120 else n)"

subsection \<open>The script\<close>

text \<open>Lines 28 to 34: the startup log and the messages on standard output. The timestamp of
  a line is taken when its text is built, in front of the write.\<close>

definition log_startup :: "world \<Rightarrow> string \<Rightarrow> state \<Rightarrow> (pyexc + unit) \<times> state" where
  "log_startup w file s0 =
     and_then (open_append w Open_startup_log (LOG_FILE file) s0) (\<lambda>s1.
       let (t1, s2) = time_strftime w s1 in
       and_then (f_write w Write_start_line (LOG_FILE file)
                   (t1 @ '': Starting RebasedCode Git Sync Runner'' @ nl) s2) (\<lambda>s3.
         let (t2, s4) = time_strftime w s3 in
         and_then (f_write w Write_path_line (LOG_FILE file)
                     (t2 @ '': Script path: '' @ SCRIPT_PATH file @ nl) s4) (\<lambda>s5.
           and_then (print w Print_start ''Starting RebasedCode Git Sync process...'' s5) (\<lambda>s6.
             and_then (print w Print_path (''Script path: '' @ SCRIPT_PATH file) s6) (\<lambda>s7.
               print w Print_logs
                 (''Logs will be written to '' @ LOG_FILE file @ '' and '' @ ERROR_LOG file) s7)))))"

text \<open>Lines 46 to 50: the \<open>with\<close> block after \<open>communicate()\<close> has returned. An exception
  inside the block leaves it; the file is closed and keeps what was written.\<close>

definition log_termination :: "world \<Rightarrow> string \<Rightarrow> int \<Rightarrow> string \<Rightarrow> state \<Rightarrow> (pyexc + unit) \<times> state" where
  "log_termination w file returncode err s0 =
     and_then (open_append w Open_error_log (ERROR_LOG file) s0) (\<lambda>s1.
       let (t, s2) = time_strftime w s1 in
       and_then (f_write w Write_terminated (ERROR_LOG file)
                   (t @ '': Git sync process terminated unexpectedly'' @ nl) s2) (\<lambda>s3.
         and_then (f_write w Write_return_code (ERROR_LOG file)
                     (''Return code: '' @ str_int returncode @ nl) s3) (\<lambda>s4.
           if err \<noteq> []
           then (case decode w err of
                   Inl e \<Rightarrow> (Inl e, s4)
                 | Inr text \<Rightarrow>
                     f_write w Write_error_output (ERROR_LOG file) (''Error output: '' @ text @ nl) s4)
           else (Inr (), s4))))"

text \<open>Lines 38 to 52: the body of the try statement.\<close>

definition try_body :: "world \<Rightarrow> string \<Rightarrow> state \<Rightarrow> completion \<times> state" where
  "try_body w file s0 =
     (case Popen w [''/bin/bash'', SCRIPT_PATH file] s0 of
        (Inl e, s1) \<Rightarrow> (Raised e, s1)
      | (Inr _, s1) \<Rightarrow>
          (case communicate w of
             Blocks \<Rightarrow> (Hangs, s1\<lparr>events := events s1 @ [Wait]\<rparr>)
           | Raises e \<Rightarrow> (Raised e, s1\<lparr>events := events s1 @ [Wait]\<rparr>)
           | Completed out err returncode \<Rightarrow>
               (case log_termination w file returncode err (s1\<lparr>events := events s1 @ [Wait]\<rparr>) of
                  (Inl e, s2) \<Rightarrow> (Raised e, s2)
                | (Inr _, s2) \<Rightarrow> (SysExit 1, s2))))"

text \<open>Lines 54 to 57: the handler, entered for instances of \<open>Exception\<close> only. An exception
  of its own \<open>with\<close> block is caught by nothing.\<close>

definition except_Exception :: "world \<Rightarrow> string \<Rightarrow> string \<Rightarrow> state \<Rightarrow> outcome \<times> state" where
  "except_Exception w file e s0 =
     (case and_then (open_append w Open_error_log_handler (ERROR_LOG file) s0) (\<lambda>s1.
             let (t, s2) = time_strftime w s1 in
             f_write w Write_exception (ERROR_LOG file)
               (t @ '': Exception running git sync script: '' @ e @ nl) s2) of
        (Inl e', s3) \<Rightarrow> (Uncaught e', s3)
      | (Inr _, s3) \<Rightarrow> (sys_exit w 1, s3))"

definition relabel_command :: "nat \<Rightarrow> string" where
  "relabel_command p = ''ps -p '' @ str_nat p @ '' -o command= | sed '' @ [CHR 0x22]
     @ ''s/.*python.*/RebasedCodeGitSync/'' @ [CHR 0x22]"

text \<open>The whole script. Lines 17 to 34 are outside the try statement: an exception there
  ends the run with a traceback.\<close>

definition main :: "world \<Rightarrow> state \<Rightarrow> outcome \<times> state" where
  "main w s0 =
     (let s1 = setenv ''PYTHONUNBUFFERED'' ''1'' s0
      in case abspath_file w of
           Inl e \<Rightarrow> (Uncaught e, s1)
         | Inr file \<Rightarrow>
             (case log_startup w file (os_system w (relabel_command (getpid w)) s1) of
                (Inl e, s3) \<Rightarrow> (Uncaught e, s3)
              | (Inr _, s3) \<Rightarrow>
                  (case try_body w file s3 of
                     (Hangs, s4) \<Rightarrow> (Blocked, s4)
                   | (SysExit n, s4) \<Rightarrow> (sys_exit w n, s4)
                   | (Raised (PyException e), s4) \<Rightarrow> except_Exception w file e s4
                   | (Raised (PyBaseException e), s4) \<Rightarrow> (Uncaught (PyBaseException e), s4))))"

section \<open>Notions of the specification\<close>

subsection \<open>Timestamps, lines and numbers\<close>

text \<open>A local time as \<open>time.localtime()\<close> returns it, in a year of four digits.\<close>

definition wf_tm :: "tm \<Rightarrow> bool" where
  "wf_tm t \<longleftrightarrow> 1000 \<le> tm_year t \<and> tm_year t \<le> 9999 \<and> 1 \<le> tm_mon t \<and> tm_mon t \<le> 12
     \<and> 1 \<le> tm_mday t \<and> tm_mday t \<le> 31 \<and> tm_hour t \<le> 23 \<and> tm_min t \<le> 59 \<and> tm_sec t \<le> 61"

definition is_digit :: "char \<Rightarrow> bool" where
  "is_digit c \<longleftrightarrow> 48 \<le> (of_char c :: nat) \<and> (of_char c :: nat) \<le> 57"

datatype shape = Digit | Lit char

definition shape_of :: "char \<Rightarrow> shape" where
  "shape_of c = (if is_digit c then Digit else Lit c)"

text \<open>The format \<open>YYYY-MM-DD HH:MM:SS\<close>.\<close>

definition is_timestamp :: "string \<Rightarrow> bool" where
  "is_timestamp s \<longleftrightarrow> map shape_of s =
     [Digit, Digit, Digit, Digit, Lit (CHR ''-''), Digit, Digit, Lit (CHR ''-''), Digit, Digit,
      Lit (CHR '' ''), Digit, Digit, Lit (CHR '':''), Digit, Digit, Lit (CHR '':''), Digit, Digit]"

text \<open>The lines of a text: the pieces between line breaks; a final line break ends the
  last line and starts no new one.\<close>

primrec lines_of :: "string \<Rightarrow> string list" where
  "lines_of [] = []"
| "lines_of (c # cs) =
     (if c = CHR 0x0A then [] # lines_of cs
      else (case lines_of cs of [] \<Rightarrow> [[c]] | l # ls \<Rightarrow> (c # l) # ls))"


text \<open>The number that a text of decimal digits, with a minus sign in front or without one,
  stands for. It is defined on its own, with no reference to how the script formats a
  number.\<close>

definition digit_value :: "char \<Rightarrow> nat" where
  "digit_value c = of_char c - 48"

definition read_nat :: "string \<Rightarrow> nat" where
  "read_nat ds = foldl (\<lambda>a c. 10 * a + digit_value c) 0 ds"

definition read_int :: "string \<Rightarrow> int" where
  "read_int ds = (case ds of
       [] \<Rightarrow> 0
     | c # cs \<Rightarrow> if c = CHR ''-'' then - int (read_nat cs) else int (read_nat ds))"

text \<open>The decimal form of a whole number, as Python's \<open>str\<close> gives it: digits with no
  leading zero, and a minus sign in front of a negative number. Every number has exactly one
  such form.\<close>

definition is_decimal :: "string \<Rightarrow> bool" where
  "is_decimal ds \<longleftrightarrow> (case ds of
       [] \<Rightarrow> False
     | c # cs \<Rightarrow>
         if c = CHR ''-'' then cs \<noteq> [] \<and> list_all is_digit cs \<and> hd cs \<noteq> CHR ''0''
         else list_all is_digit ds \<and> (c \<noteq> CHR ''0'' \<or> cs = []))"

subsection \<open>Records of the error log\<close>

text \<open>The Termination Record: what lines 47 to 50 write for a timestamp, an exit code and
  the decoded error text, if any; an exception inside the block cuts the record short. The
  Exception Record: what line 56 writes.\<close>

definition termination_record :: "string \<Rightarrow> int option \<Rightarrow> string option \<Rightarrow> string" where
  "termination_record ts returncode text =
     ts @ '': Git sync process terminated unexpectedly'' @ nl
     @ (case returncode of None \<Rightarrow> [] | Some c \<Rightarrow> ''Return code: '' @ str_int c @ nl)
     @ (case text of None \<Rightarrow> [] | Some x \<Rightarrow> ''Error output: '' @ x @ nl)"

definition exception_record :: "string \<Rightarrow> string \<Rightarrow> string" where
  "exception_record ts e = ts @ '': Exception running git sync script: '' @ e @ nl"

datatype error_entry = Termination string "int option" "string option" | Exception string string

primrec render :: "error_entry \<Rightarrow> string" where
  "render (Termination ts returncode text) = termination_record ts returncode text"
| "render (Exception ts e) = exception_record ts e"


subsection \<open>Observations of a run\<close>

text \<open>The \<open>k\<close>-th timestamp the run takes, the effects of the run in program order, the
  texts it writes to a file, what a file has gained at its end, and whether an effect
  writes to a given file.\<close>

definition timestamp :: "world \<Rightarrow> state \<Rightarrow> nat \<Rightarrow> string" where
  "timestamp w s k = strftime (localtime w (clock s + k))"

definition new_events :: "world \<Rightarrow> state \<Rightarrow> event list" where
  "new_events w s = drop (length (events s)) (events (snd (main w s)))"

fun writes_to :: "string \<Rightarrow> event list \<Rightarrow> string list" where
  "writes_to path [] = []"
| "writes_to path (Append p text # evs) =
     (if p = path then text # writes_to path evs else writes_to path evs)"
| "writes_to path (_ # evs) = writes_to path evs"

definition appended :: "world \<Rightarrow> state \<Rightarrow> string \<Rightarrow> string" where
  "appended w s path = drop (length (content s path)) (content (snd (main w s)) path)"

primrec touches :: "string \<Rightarrow> event \<Rightarrow> bool" where
  "touches path (Setenv k v) = False"
| "touches path (System cmd) = False"
| "touches path (Append p text) = (p = path)"
| "touches path (Print text) = False"
| "touches path (Spawn args) = False"
| "touches path Wait = False"

subsection \<open>Conditions on a run\<close>

text \<open>The startup log can be opened and written; the three messages can be printed; the
  error log can be opened and written in the \<open>with\<close> block of line 46, and in the handler.\<close>

definition startup_log_ok :: "world \<Rightarrow> bool" where
  "startup_log_ok w \<longleftrightarrow> io_error w Open_startup_log = None \<and> io_error w Write_start_line = None
     \<and> io_error w Write_path_line = None"

definition prints_ok :: "world \<Rightarrow> bool" where
  "prints_ok w \<longleftrightarrow> io_error w Print_start = None \<and> io_error w Print_path = None
     \<and> io_error w Print_logs = None"

definition startup_ok :: "world \<Rightarrow> bool" where
  "startup_ok w \<longleftrightarrow> startup_log_ok w \<and> prints_ok w"

definition termination_ok :: "world \<Rightarrow> bool" where
  "termination_ok w \<longleftrightarrow> io_error w Open_error_log = None \<and> io_error w Write_terminated = None
     \<and> io_error w Write_return_code = None \<and> io_error w Write_error_output = None"

definition handler_ok :: "world \<Rightarrow> bool" where
  "handler_ok w \<longleftrightarrow> io_error w Open_error_log_handler = None \<and> io_error w Write_exception = None"

definition error_log_ok :: "world \<Rightarrow> bool" where
  "error_log_ok w \<longleftrightarrow> termination_ok w \<and> handler_ok w"

text \<open>Step 5 of the specification, spawning the child and waiting for it, raises \<open>e\<close>.\<close>

definition step5_raises :: "world \<Rightarrow> string \<Rightarrow> state \<Rightarrow> pyexc \<Rightarrow> bool" where
  "step5_raises w file s e \<longleftrightarrow>
     (case fst (Popen w [''/bin/bash'', SCRIPT_PATH file] s) of
        Inl e' \<Rightarrow> e' = e
      | Inr _ \<Rightarrow> communicate w = Raises e)"

text \<open>From the first state to the second nothing is written to a file other than the given
  one, and the given one is appended to at most.\<close>

definition only_file :: "string \<Rightarrow> state \<Rightarrow> state \<Rightarrow> bool" where
  "only_file path s0 s1 \<longleftrightarrow>
     (\<exists>tail. events s1 = events s0 @ tail \<and> (\<forall>e \<in> set tail. \<forall>q. touches q e \<longrightarrow> q = path))
     \<and> (\<forall>p. p \<noteq> path \<longrightarrow> files s1 p = files s0 p)
     \<and> (files s1 path = files s0 path \<or> (\<exists>c. files s1 path = Some (content s0 path @ c)))"

subsection \<open>Phases of a run\<close>

text \<open>The state at line 28; the effects of lines 14 to 34 in program order; the state at
  line 37, in front of the try statement; the state while the launcher waits for the child;
  and the state at the end of the \<open>with\<close> block of line 46.\<close>

definition at_start :: "world \<Rightarrow> state \<Rightarrow> state" where
  "at_start w s = os_system w (relabel_command (getpid w)) (setenv ''PYTHONUNBUFFERED'' ''1'' s)"

definition startup_events :: "world \<Rightarrow> string \<Rightarrow> state \<Rightarrow> event list" where
  "startup_events w f s =
     [Setenv ''PYTHONUNBUFFERED'' ''1'', System (relabel_command (getpid w)),
      Append (LOG_FILE f) (timestamp w s 0 @ '': Starting RebasedCode Git Sync Runner'' @ nl),
      Append (LOG_FILE f) (timestamp w s 1 @ '': Script path: '' @ SCRIPT_PATH f @ nl),
      Print ''Starting RebasedCode Git Sync process...'',
      Print (''Script path: '' @ SCRIPT_PATH f),
      Print (''Logs will be written to '' @ LOG_FILE f @ '' and '' @ ERROR_LOG f)]"

definition before_try :: "world \<Rightarrow> string \<Rightarrow> state \<Rightarrow> state" where
  "before_try w f s = snd (log_startup w f (at_start w s))"

definition waiting :: "world \<Rightarrow> string \<Rightarrow> state \<Rightarrow> state" where
  "waiting w f s = (before_try w f s)\<lparr>events := events (before_try w f s)
      @ [Spawn [''/bin/bash'', SCRIPT_PATH f], Wait]\<rparr>"

definition terminated :: "world \<Rightarrow> string \<Rightarrow> int \<Rightarrow> string \<Rightarrow> state \<Rightarrow> state" where
  "terminated w f returncode err s = snd (log_termination w f returncode err (waiting w f s))"

text \<open>The error text that line 50 writes, if any, and the exception that
  \<open>err.decode()\<close> raises, if any: \<open>if err:\<close> skips both for an empty capture.\<close>

definition logged_text :: "world \<Rightarrow> string \<Rightarrow> string option" where
  "logged_text w err =
     (if err = [] then None else (case decode w err of Inl e \<Rightarrow> None | Inr text \<Rightarrow> Some text))"

definition decode_failure :: "world \<Rightarrow> string \<Rightarrow> pyexc option" where
  "decode_failure w err =
     (if err = [] then None else (case decode w err of Inl e \<Rightarrow> Some e | Inr text \<Rightarrow> None))"

text \<open>The entries that a run adds to the error log when the run reaches the try statement
  and the error log can be opened and written, read off the surroundings.\<close>

definition error_entries :: "world \<Rightarrow> string \<Rightarrow> state \<Rightarrow> error_entry list" where
  "error_entries w file s =
     (case fst (Popen w [''/bin/bash'', SCRIPT_PATH file] s) of
        Inl (PyException e) \<Rightarrow> [Exception (timestamp w s 2) e]
      | Inl (PyBaseException e) \<Rightarrow> []
      | Inr _ \<Rightarrow>
          (case communicate w of
             Blocks \<Rightarrow> []
           | Raises (PyException e) \<Rightarrow> [Exception (timestamp w s 2) e]
           | Raises (PyBaseException e) \<Rightarrow> []
           | Completed out err returncode \<Rightarrow>
               Termination (timestamp w s 2) (Some returncode) (logged_text w err)
               # (case decode_failure w err of
                    Some (PyException e) \<Rightarrow> [Exception (timestamp w s 3) e]
                  | _ \<Rightarrow> [])))"

subsection \<open>Example runs\<close>

text \<open>
  A launcher installed in \<open>/opt/sync\<close>, started at 07:05:00 on 9 March 2024 with a clock
  that advances a second per reading, on a machine that has \<open>/bin/bash\<close> and on which no
  call fails. In \<open>world_boom\<close> the sync script prints \<open>hello\<close>, writes \<open>boom\<close> to its
  error stream and exits with code 3. The decoder of the examples accepts ASCII bytes as
  they are and rejects everything else, which is what UTF-8 does to the inputs used here.
\<close>

definition ascii_decode :: "string \<Rightarrow> pyexc + string" where
  "ascii_decode bs =
     (if list_all (\<lambda>c. (of_char c :: nat) < 128) bs then Inr bs
      else Inl (PyException ''codec can not decode bytes''))"

definition world_boom :: world where
  "world_boom =
     \<lparr>abspath_file = Inr ''/opt/sync/git_sync_runner.py'', getpid = 4242,
      system_output = ''RebasedCodeGitSync'' @ nl,
      localtime = (\<lambda>k. \<lparr>tm_year = 2024, tm_mon = 3, tm_mday = 9, tm_hour = 7, tm_min = 5, tm_sec = k\<rparr>),
      io_error = (\<lambda>st. None), spawn_error = None, child_exit = Some 3,
      communicate = Completed ''hello'' ''boom'' 3, decode = ascii_decode, flush_fails = False\<rparr>"

text \<open>The sync script exits with code 3 and writes nothing.\<close>

definition world_quiet :: world where
  "world_quiet = world_boom\<lparr>communicate := Completed [] [] 3\<rparr>"

text \<open>The sync script is missing: bash reports it and exits with code 127.\<close>

definition bash_complaint :: string where
  "bash_complaint = ''/bin/bash: /opt/sync/auto_git_sync.sh: No such file or directory'' @ nl"

definition world_no_script :: world where
  "world_no_script = world_boom\<lparr>child_exit := Some 127, communicate := Completed [] bash_complaint 127\<rparr>"

text \<open>The launcher's own location can not be resolved.\<close>

definition world_no_cwd :: world where
  "world_no_cwd = world_boom\<lparr>abspath_file := Inl (PyException ''[Errno 2] No such file or directory'')\<rparr>"

text \<open>The launcher's directory has a line break in its name.\<close>

definition newline_file :: string where
  "newline_file = ''/opt/sy'' @ nl @ ''nc/git_sync_runner.py''"

definition world_newline :: world where
  "world_newline = world_boom\<lparr>abspath_file := Inr newline_file\<rparr>"

text \<open>The launcher's directory has the byte \<open>0xFF\<close> in its name, which the codec of the
  startup log can not encode: the write of line 30 raises \<open>UnicodeEncodeError\<close>.\<close>

definition badbyte_file :: string where
  "badbyte_file = ''/opt/sy'' @ [CHR 0xFF] @ ''nc/git_sync_runner.py''"

definition world_badbyte :: world where
  "world_badbyte = world_boom\<lparr>abspath_file := Inr badbyte_file,
     io_error := (\<lambda>st. None)(Write_path_line \<mapsto> PyException ''codec can not encode character'')\<rparr>"

text \<open>The wait is interrupted from the keyboard.\<close>

definition world_interrupt :: world where
  "world_interrupt = world_boom\<lparr>child_exit := None,
     communicate := Raises (PyBaseException ''KeyboardInterrupt'')\<rparr>"

text \<open>The captured output of the child does not fit into memory: \<open>communicate()\<close> raises
  \<open>MemoryError\<close>, whose description is empty.\<close>

definition world_wait_fails :: world where
  "world_wait_fails = world_boom\<lparr>communicate := Raises (PyException [])\<rparr>"

text \<open>The sync script writes the word cafe, with an accent on the e, in Latin-1 to its error
  stream and exits with code 1.\<close>

definition cafe_latin1 :: string where
  "cafe_latin1 = ''caf'' @ [CHR 0xE9]"

definition world_latin1 :: world where
  "world_latin1 = world_boom\<lparr>child_exit := Some 1, communicate := Completed [] cafe_latin1 1\<rparr>"

text \<open>The launcher's standard output is a full device: the three messages stay in the
  buffer and can not be flushed when the interpreter exits.\<close>

definition world_full_stdout :: world where
  "world_full_stdout = world_boom\<lparr>flush_fails := True\<rparr>"

text \<open>The launcher was started with \<open>SIGCHLD\<close> ignored: the sync script exits with code 3,
  the launcher can not reap it, and \<open>process.returncode\<close> is 0.\<close>

definition world_sigchld :: world where
  "world_sigchld = world_boom\<lparr>communicate := Completed [] [] 0\<rparr>"

text \<open>The sync script exits with code 3 and leaves a background process that keeps the
  pipes open: \<open>communicate()\<close> does not return.\<close>

definition world_pipes_held :: world where
  "world_pipes_held = world_boom\<lparr>communicate := Blocks\<rparr>"

text \<open>The error log can not be opened, in the \<open>with\<close> block of line 46 or in the handler.\<close>

definition permission_denied :: string where
  "permission_denied = ''[Errno 13] Permission denied: '' @ [CHR 0x27] @ ''/opt/sync/sync_error.log'' @ [CHR 0x27]"

definition world_locked_log :: world where
  "world_locked_log = world_boom\<lparr>io_error := (\<lambda>st. None)
     (Open_error_log \<mapsto> PyException permission_denied,
      Open_error_log_handler \<mapsto> PyException permission_denied)\<rparr>"

definition state_bash :: state where
  "state_bash = \<lparr>files = [''/bin/bash'' \<mapsto> ''ELF''], stdout = [], clock = 0, events = []\<rparr>"

definition state_no_bash :: state where
  "state_no_bash = \<lparr>files = Map.empty, stdout = [], clock = 0, events = []\<rparr>"

section \<open>Formatting, numbers, paths and lines\<close>

lemma is_digit_digit_char: "d < 10 \<Longrightarrow> is_digit (digit_char d)"
  by (simp add: is_digit_def digit_char_def)

lemma shape_digit_char: "d < 10 \<Longrightarrow> shape_of (digit_char d) = Digit"
  by (simp add: shape_of_def is_digit_digit_char)

lemma str_nat_1: "n < 10 \<Longrightarrow> str_nat n = [digit_char n]"
  by (simp add: str_nat.simps)

lemma str_nat_2: "10 \<le> n \<Longrightarrow> n < 100 \<Longrightarrow> str_nat n = [digit_char (n div 10), digit_char (n mod 10)]"
  by (subst str_nat.simps) (simp add: str_nat_1)

lemma str_nat_3: "100 \<le> n \<Longrightarrow> n < 1000 \<Longrightarrow>
    str_nat n = [digit_char (n div 10 div 10), digit_char (n div 10 mod 10), digit_char (n mod 10)]"
  by (subst str_nat.simps) (simp add: str_nat_2)

lemma str_nat_4: "1000 \<le> n \<Longrightarrow> n < 10000 \<Longrightarrow>
    str_nat n = [digit_char (n div 10 div 10 div 10), digit_char (n div 10 div 10 mod 10),
                 digit_char (n div 10 mod 10), digit_char (n mod 10)]"
  by (subst str_nat.simps) (simp add: str_nat_3)

lemma shape_str_nat_4: "1000 \<le> n \<Longrightarrow> n < 10000 \<Longrightarrow> map shape_of (str_nat n) = [Digit, Digit, Digit, Digit]"
  by (simp add: str_nat_4 shape_digit_char)

lemma shape_pad2: "n < 100 \<Longrightarrow> map shape_of (pad2 n) = [Digit, Digit]"
proof (cases "n < 10")
  case True
  have "shape_of (CHR ''0'') = Digit" by (simp add: shape_of_def is_digit_def)
  with True show ?thesis by (simp add: pad2_def str_nat_1 shape_digit_char)
next
  case False
  assume "n < 100"
  with False show ?thesis by (simp add: pad2_def str_nat_2 shape_digit_char)
qed

lemma shape_lits:
  "shape_of (CHR ''-'') = Lit (CHR ''-'')" "shape_of (CHR '' '') = Lit (CHR '' '')"
  "shape_of (CHR '':'') = Lit (CHR '':'')"
  by (simp_all add: shape_of_def is_digit_def)

lemma is_timestamp_strftime: "wf_tm t \<Longrightarrow> is_timestamp (strftime t)"
  by (simp add: is_timestamp_def strftime_def wf_tm_def shape_str_nat_4 shape_pad2 shape_lits)

lemma set_str_nat: "c \<in> set (str_nat n) \<Longrightarrow> is_digit c"
proof (induction n rule: str_nat.induct)
  case (1 n)
  show ?case
  proof (cases "n < 10")
    case True
    with "1.prems" show ?thesis by (simp add: str_nat_1 is_digit_digit_char)
  next
    case False
    have "str_nat n = str_nat (n div 10) @ [digit_char (n mod 10)]"
      using False by (subst str_nat.simps) simp
    with "1.prems" have "c \<in> set (str_nat (n div 10)) \<or> c = digit_char (n mod 10)"
      by auto
    then show ?thesis
      using "1.IH" False by (auto simp: is_digit_digit_char)
  qed
qed

lemma nl_not_digit: "\<not> is_digit (CHR 0x0A)"
  by (simp add: is_digit_def)

lemma nl_notin_str_nat: "CHR 0x0A \<notin> set (str_nat n)"
  using set_str_nat nl_not_digit by blast

lemma nl_notin_pad2: "CHR 0x0A \<notin> set (pad2 n)"
  by (simp add: pad2_def nl_notin_str_nat)

lemma nl_notin_strftime: "CHR 0x0A \<notin> set (strftime t)"
  by (simp add: strftime_def nl_notin_pad2 nl_notin_str_nat)

lemma digit_char_inj: "a < 10 \<Longrightarrow> b < 10 \<Longrightarrow> digit_char a = digit_char b \<Longrightarrow> a = b"
  by (simp add: digit_char_def)

lemma str_nat_not_Nil: "str_nat n \<noteq> []"
  by (subst str_nat.simps) simp

lemma str_nat_step: "10 \<le> n \<Longrightarrow> str_nat n = str_nat (n div 10) @ [digit_char (n mod 10)]"
  by (subst str_nat.simps) simp

lemma minus_not_digit: "\<not> is_digit (CHR ''-'')"
  by (simp add: is_digit_def)

text \<open>Reading the decimal form of a number gives the number back.\<close>

lemma digit_value_digit_char: "d < 10 \<Longrightarrow> digit_value (digit_char d) = d"
  by (simp add: digit_value_def digit_char_def)

lemma read_nat_snoc: "read_nat (ds @ [c]) = 10 * read_nat ds + digit_value c"
  by (simp add: read_nat_def)

lemma read_nat_str_nat: "read_nat (str_nat n) = n"
proof (induction n rule: str_nat.induct)
  case (1 n)
  show ?case
  proof (cases "n < 10")
    case True
    then show ?thesis by (simp add: str_nat_1 read_nat_def digit_value_digit_char)
  next
    case False
    then have "read_nat (str_nat n) = 10 * read_nat (str_nat (n div 10)) + digit_value (digit_char (n mod 10))"
      by (simp add: str_nat_step read_nat_snoc)
    with False "1.IH" show ?thesis by (simp add: digit_value_digit_char)
  qed
qed

lemma hd_str_nat_not_minus: "\<exists>c cs. str_nat n = c # cs \<and> c \<noteq> CHR ''-''"
proof (cases "str_nat n")
  case Nil
  then show ?thesis by (simp add: str_nat_not_Nil)
next
  case (Cons c cs)
  then have "c \<in> set (str_nat n)" by simp
  then have "is_digit c" by (rule set_str_nat)
  with minus_not_digit have "c \<noteq> CHR ''-''" by auto
  with Cons show ?thesis by simp
qed

lemma read_int_str_int: "read_int (str_int i) = i"
proof (cases "i < 0")
  case True
  then show ?thesis by (simp add: str_int_def read_int_def read_nat_str_nat)
next
  case False
  obtain c cs where c: "str_nat (nat i) = c # cs" "c \<noteq> CHR ''-''"
    using hd_str_nat_not_minus [of "nat i"] by auto
  have "read_nat (c # cs) = nat i" using read_nat_str_nat [of "nat i"] c(1) by simp
  with False c show ?thesis by (simp add: str_int_def read_int_def)
qed

lemma list_all_str_nat: "list_all is_digit (str_nat n)"
  by (simp add: list_all_iff set_str_nat)

lemma hd_str_nat_nonzero: "0 < n \<Longrightarrow> hd (str_nat n) \<noteq> CHR ''0''"
proof (induction n rule: str_nat.induct)
  case (1 n)
  show ?case
  proof (cases "n < 10")
    case True
    have "digit_char n \<noteq> digit_char 0"
      using digit_char_inj [of n 0] True "1.prems" by auto
    moreover have "digit_char 0 = CHR ''0''" by (simp add: digit_char_def char_of_eq_iff)
    ultimately show ?thesis using True by (simp add: str_nat_1)
  next
    case False
    then have "hd (str_nat n) = hd (str_nat (n div 10))"
      by (simp add: str_nat_step str_nat_not_Nil)
    with False "1.IH" show ?thesis by simp
  qed
qed

lemma is_decimal_str_int: "is_decimal (str_int i)"
proof (cases "i < 0")
  case True
  then have "0 < nat (- i)" by simp
  from hd_str_nat_nonzero [OF this] True show ?thesis
    by (simp add: is_decimal_def str_int_def str_nat_not_Nil list_all_str_nat)
next
  case False
  obtain c cs where c: "str_nat (nat i) = c # cs" "c \<noteq> CHR ''-''"
    using hd_str_nat_not_minus [of "nat i"] by auto
  have a: "list_all is_digit (c # cs)" using list_all_str_nat [of "nat i"] c(1) by simp
  have "c \<noteq> CHR ''0'' \<or> cs = []"
  proof (cases "nat i = 0")
    case True
    with c(1) show ?thesis by (simp add: str_nat_1)
  next
    case False
    then have "hd (str_nat (nat i)) \<noteq> CHR ''0''" by (intro hd_str_nat_nonzero) simp
    with c(1) show ?thesis by simp
  qed
  with a c False show ?thesis by (simp add: is_decimal_def str_int_def)
qed

lemma os_path_join_rel:
  "take 1 b \<noteq> ''/'' \<Longrightarrow> os_path_join a b = a @ (if a = [] \<or> last a = CHR ''/'' then [] else ''/'') @ b"
  by (simp add: os_path_join_def)

lemma LOG_FILE_eq: "LOG_FILE f = REPO_PATH f @ (if REPO_PATH f = [] \<or> last (REPO_PATH f) = CHR ''/'' then [] else ''/'') @ ''sync_log.txt''"
  unfolding LOG_FILE_def by (rule os_path_join_rel) simp

lemma ERROR_LOG_eq: "ERROR_LOG f = REPO_PATH f @ (if REPO_PATH f = [] \<or> last (REPO_PATH f) = CHR ''/'' then [] else ''/'') @ ''sync_error.log''"
  unfolding ERROR_LOG_def by (rule os_path_join_rel) simp

lemma SCRIPT_PATH_eq: "SCRIPT_PATH f = os_path_dirname f @ (if os_path_dirname f = [] \<or> last (os_path_dirname f) = CHR ''/'' then [] else ''/'') @ ''auto_git_sync.sh''"
  unfolding SCRIPT_PATH_def by (rule os_path_join_rel) simp

lemma LOG_FILE_neq_ERROR_LOG: "LOG_FILE f \<noteq> ERROR_LOG f"
  by (simp add: LOG_FILE_eq ERROR_LOG_eq)

lemma ERROR_LOG_neq_LOG_FILE: "ERROR_LOG f \<noteq> LOG_FILE f"
  by (simp add: LOG_FILE_eq ERROR_LOG_eq)

lemma last_LOG_FILE: "last (LOG_FILE f) = CHR ''t''"
  by (simp add: LOG_FILE_eq)

lemma last_ERROR_LOG: "last (ERROR_LOG f) = CHR ''g''"
  by (simp add: ERROR_LOG_eq)

lemma bash_neq_LOG_FILE: "''/bin/bash'' \<noteq> LOG_FILE f"
proof
  assume "''/bin/bash'' = LOG_FILE f"
  then have "last ''/bin/bash'' = last (LOG_FILE f)" by simp
  then show False by (simp add: last_LOG_FILE)
qed

lemma bash_neq_ERROR_LOG: "''/bin/bash'' \<noteq> ERROR_LOG f"
proof
  assume "''/bin/bash'' = ERROR_LOG f"
  then have "last ''/bin/bash'' = last (ERROR_LOG f)" by simp
  then show False by (simp add: last_ERROR_LOG)
qed

lemma set_os_path_dirname: "set (os_path_dirname p) \<subseteq> set p"
proof
  fix x assume "x \<in> set (os_path_dirname p)"
  then have "x \<in> set (dropWhile (\<lambda>c. c \<noteq> CHR ''/'') (rev p))"
    unfolding os_path_dirname_def Let_def
    by (auto split: if_splits dest: set_dropWhileD)
  then have "x \<in> set (rev p)" by (rule set_dropWhileD)
  then show "x \<in> set p" by simp
qed

lemma nl_notin_SCRIPT_PATH: "CHR 0x0A \<notin> set f \<Longrightarrow> CHR 0x0A \<notin> set (SCRIPT_PATH f)"
  using set_os_path_dirname [of f] by (auto simp: SCRIPT_PATH_eq)

lemma lines_of_line:
  "CHR 0x0A \<notin> set l \<Longrightarrow> lines_of (l @ CHR 0x0A # rest) = l # lines_of rest"
  by (induction l) auto






lemma writes_to_append: "writes_to p (a @ b) = writes_to p a @ writes_to p b"
  by (induction p a rule: writes_to.induct) simp_all

lemma nl_notin_timestamp: "CHR 0x0A \<notin> set (timestamp w s k)"
  by (simp add: timestamp_def nl_notin_strftime)

lemma writes_to_untouched: "\<forall>e \<in> set evs. \<not> touches p e \<Longrightarrow> writes_to p evs = []"
  by (induction p evs rule: writes_to.induct) simp_all


section \<open>The control flow of a run\<close>

lemmas effect_defs = setenv_def os_system_def append_file_def open_append_def f_write_def
  print_def time_strftime_def content_def and_then_def

lemmas ok_defs = startup_ok_def startup_log_ok_def prints_ok_def termination_ok_def
  handler_ok_def error_log_ok_def

lemma main_unresolved:
  "abspath_file w = Inl e \<Longrightarrow> main w s = (Uncaught e, setenv ''PYTHONUNBUFFERED'' ''1'' s)"
  by (simp add: main_def)

subsection \<open>Writes stay in one file\<close>

lemma only_file_refl: "only_file p s s"
  by (simp add: only_file_def)

lemma only_file_trans:
  assumes "only_file p s0 s1" and "only_file p s1 s2"
  shows "only_file p s0 s2"
proof -
  from assms(1) obtain t1 where t1: "events s1 = events s0 @ t1"
    "\<forall>e \<in> set t1. \<forall>q. touches q e \<longrightarrow> q = p"
    by (auto simp: only_file_def)
  from assms(2) obtain t2 where t2: "events s2 = events s1 @ t2"
    "\<forall>e \<in> set t2. \<forall>q. touches q e \<longrightarrow> q = p"
    by (auto simp: only_file_def)
  have o: "\<forall>q. q \<noteq> p \<longrightarrow> files s2 q = files s0 q"
    using assms by (simp add: only_file_def)
  have a: "files s1 p = files s0 p \<or> (\<exists>c. files s1 p = Some (content s0 p @ c))"
    using assms(1) by (simp add: only_file_def)
  have b: "files s2 p = files s1 p \<or> (\<exists>c. files s2 p = Some (content s1 p @ c))"
    using assms(2) by (simp add: only_file_def)
  have c: "files s2 p = files s0 p \<or> (\<exists>c. files s2 p = Some (content s0 p @ c))"
  proof (cases "files s1 p = files s0 p")
    case True
    then have "content s1 p = content s0 p" by (simp add: content_def)
    with b True show ?thesis by simp
  next
    case False
    with a obtain c where c: "files s1 p = Some (content s0 p @ c)" by blast
    then have "content s1 p = content s0 p @ c" by (simp add: content_def)
    with b c show ?thesis by auto
  qed
  have "events s2 = events s0 @ (t1 @ t2)" using t1(1) t2(1) by simp
  moreover have "\<forall>e \<in> set (t1 @ t2). \<forall>q. touches q e \<longrightarrow> q = p"
    using t1(2) t2(2) by auto
  ultimately have "\<exists>tail. events s2 = events s0 @ tail \<and> (\<forall>e \<in> set tail. \<forall>q. touches q e \<longrightarrow> q = p)"
    by blast
  with o c show ?thesis unfolding only_file_def by blast
qed

lemma only_file_clock: "only_file p s (s\<lparr>clock := k\<rparr>)"
  by (simp add: only_file_def)

lemma only_file_event: "\<forall>q. \<not> touches q e \<Longrightarrow> only_file p s (s\<lparr>events := events s @ [e]\<rparr>)"
  by (simp add: only_file_def)

lemma only_file_open: "only_file p s (snd (open_append w st p s))"
  by (cases "io_error w st") (simp_all add: only_file_def open_append_def)

lemma only_file_write: "only_file p s (snd (f_write w st p x s))"
  by (cases "io_error w st") (simp_all add: only_file_def f_write_def append_file_def)

lemma only_file_write_clock: "only_file p s (snd (f_write w st p x (s\<lparr>clock := k\<rparr>)))"
  by (cases "io_error w st") (simp_all add: only_file_def f_write_def append_file_def content_def)

lemma only_file_print: "only_file p s (snd (print w st x s))"
  by (cases "io_error w st") (simp_all add: only_file_def print_def)

lemma only_file_and_then:
  assumes "only_file p s0 (snd r)" and "\<And>s1. only_file p s1 (snd (k s1))"
  shows "only_file p s0 (snd (and_then r k))"
proof (cases r)
  case (Pair a s1)
  show ?thesis
  proof (cases a)
    case (Inl e)
    with Pair assms(1) show ?thesis by (simp add: and_then_def)
  next
    case (Inr u)
    have "only_file p s0 (snd (k s1))"
      using assms(1) assms(2) [of s1] Pair by (auto intro: only_file_trans)
    with Pair Inr show ?thesis by (simp add: and_then_def)
  qed
qed

lemma only_file_grows:
  assumes "only_file p s0 s1"
  shows "prefix (content s0 q) (content s1 q) \<and> (files s0 q \<noteq> None \<longrightarrow> files s1 q \<noteq> None)"
proof (cases "q = p")
  case True
  from assms have "files s1 p = files s0 p \<or> (\<exists>c. files s1 p = Some (content s0 p @ c))"
    by (simp add: only_file_def)
  then show ?thesis unfolding True by (auto simp: content_def)
next
  case False
  with assms have "files s1 q = files s0 q" by (simp add: only_file_def)
  then show ?thesis by (simp add: content_def)
qed

lemma only_file_other:
  "only_file p s0 s1 \<Longrightarrow> q \<noteq> p \<Longrightarrow> content s1 q = content s0 q"
  by (simp add: only_file_def content_def)

lemma only_file_log_startup: "only_file (LOG_FILE f) s (snd (log_startup w f s))"
  unfolding log_startup_def time_strftime_def Let_def prod.case
  by (intro only_file_and_then only_file_open only_file_write_clock only_file_print)

lemma only_file_log_termination:
  "only_file (ERROR_LOG f) s (snd (log_termination w f returncode err s))"
proof -
  have last: "only_file (ERROR_LOG f) s4
     (snd (if err \<noteq> []
           then (case decode w err of
                   Inl e \<Rightarrow> (Inl e, s4)
                 | Inr text \<Rightarrow>
                     f_write w Write_error_output (ERROR_LOG f) (''Error output: '' @ text @ nl) s4)
           else (Inr (), s4)))" for s4
    by (cases "decode w err") (simp_all add: only_file_refl only_file_write)
  show ?thesis
    unfolding log_termination_def time_strftime_def Let_def prod.case
    by (intro only_file_and_then only_file_open only_file_write_clock only_file_write last)
qed

lemma only_file_except_Exception:
  "only_file (ERROR_LOG f) s (snd (except_Exception w f e s))"
proof -
  let ?r = "and_then (open_append w Open_error_log_handler (ERROR_LOG f) s) (\<lambda>s1.
             let (t, s2) = time_strftime w s1 in
             f_write w Write_exception (ERROR_LOG f)
               (t @ '': Exception running git sync script: '' @ e @ nl) s2)"
  have "only_file (ERROR_LOG f) s (snd ?r)"
    unfolding time_strftime_def Let_def prod.case
    by (intro only_file_and_then only_file_open only_file_write_clock)
  moreover have "snd (except_Exception w f e s) = snd ?r"
    by (cases ?r rule: prod.exhaust)
      (auto simp: except_Exception_def split: sum.splits)
  ultimately show ?thesis by simp
qed

lemma Popen_snd:
  "fst (Popen w args s) = Inl e \<Longrightarrow> snd (Popen w args s) = s"
  "fst (Popen w args s) = Inr u \<Longrightarrow> snd (Popen w args s) = s\<lparr>events := events s @ [Spawn args]\<rparr>"
  by (auto simp: Popen_def split: option.splits list.splits if_splits)

lemma only_file_Popen: "only_file p s (snd (Popen w args s))"
  by (cases "fst (Popen w args s)") (simp_all add: Popen_snd only_file_refl only_file_event)

lemma only_file_try_body: "only_file (ERROR_LOG f) s (snd (try_body w f s))"
proof -
  let ?P = "Popen w [''/bin/bash'', SCRIPT_PATH f] s"
  obtain a s1 where P: "?P = (a, s1)" by (cases ?P)
  have s1: "only_file (ERROR_LOG f) s s1"
    using only_file_Popen [of "ERROR_LOG f" s w "[''/bin/bash'', SCRIPT_PATH f]"] P by simp
  have s2: "only_file (ERROR_LOG f) s (s1\<lparr>events := events s1 @ [Wait]\<rparr>)"
    by (rule only_file_trans [OF s1]) (simp add: only_file_event)
  show ?thesis
  proof (cases a)
    case (Inl e)
    with P s1 show ?thesis by (simp add: try_body_def)
  next
    case (Inr u)
    show ?thesis
    proof (cases "communicate w")
      case Blocks
      with P Inr s2 show ?thesis by (simp add: try_body_def)
    next
      case (Raises e)
      with P Inr s2 show ?thesis by (simp add: try_body_def)
    next
      case (Completed out err returncode)
      let ?L = "log_termination w f returncode err (s1\<lparr>events := events s1 @ [Wait]\<rparr>)"
      have "only_file (ERROR_LOG f) s (snd ?L)"
        by (rule only_file_trans [OF s2 only_file_log_termination])
      moreover have "snd (try_body w f s) = snd ?L"
        using P Inr Completed
        by (cases ?L rule: prod.exhaust) (auto simp: try_body_def split: sum.splits)
      ultimately show ?thesis by simp
    qed
  qed
qed

subsection \<open>The startup\<close>

lemma log_startup_eq:
  assumes "startup_ok w"
  shows "log_startup w f s =
     (Inr (), s\<lparr>files := (files s)(LOG_FILE f \<mapsto> content s (LOG_FILE f)
          @ (strftime (localtime w (clock s)) @ '': Starting RebasedCode Git Sync Runner'' @ nl)
          @ (strftime (localtime w (Suc (clock s))) @ '': Script path: '' @ SCRIPT_PATH f @ nl)),
       stdout := stdout s @ ''Starting RebasedCode Git Sync process...'' @ nl
          @ (''Script path: '' @ SCRIPT_PATH f) @ nl
          @ (''Logs will be written to '' @ LOG_FILE f @ '' and '' @ ERROR_LOG f) @ nl,
       clock := Suc (Suc (clock s)),
       events := events s @
         [Append (LOG_FILE f) (strftime (localtime w (clock s)) @ '': Starting RebasedCode Git Sync Runner'' @ nl),
          Append (LOG_FILE f) (strftime (localtime w (Suc (clock s))) @ '': Script path: '' @ SCRIPT_PATH f @ nl),
          Print ''Starting RebasedCode Git Sync process...'',
          Print (''Script path: '' @ SCRIPT_PATH f),
          Print (''Logs will be written to '' @ LOG_FILE f @ '' and '' @ ERROR_LOG f)]\<rparr>)"
  using assms by (simp add: log_startup_def effect_defs ok_defs)

lemma before_try_eq:
  assumes "startup_ok w"
  shows "before_try w f s =
     s\<lparr>files := (files s)(LOG_FILE f \<mapsto> content s (LOG_FILE f)
          @ (timestamp w s 0 @ '': Starting RebasedCode Git Sync Runner'' @ nl)
          @ (timestamp w s 1 @ '': Script path: '' @ SCRIPT_PATH f @ nl)),
       stdout := stdout s @ system_output w @ ''Starting RebasedCode Git Sync process...'' @ nl
          @ (''Script path: '' @ SCRIPT_PATH f) @ nl
          @ (''Logs will be written to '' @ LOG_FILE f @ '' and '' @ ERROR_LOG f) @ nl,
       clock := clock s + 2,
       events := events s @ startup_events w f s\<rparr>"
  by (simp add: before_try_def at_start_def log_startup_eq [OF assms] startup_events_def
      timestamp_def setenv_def os_system_def content_def)

lemma log_startup_at_start:
  "startup_ok w \<Longrightarrow> log_startup w f (at_start w s) = (Inr (), before_try w f s)"
  by (simp add: before_try_def log_startup_eq)

lemma log_startup_fails: "\<not> startup_ok w \<Longrightarrow> \<exists>e. fst (log_startup w f s) = Inl e"
  by (auto simp: log_startup_def effect_defs ok_defs split: option.splits)

lemma prints_quiet:
  "files (snd (and_then (print w a x s) (\<lambda>s6. and_then (print w b y s6) (\<lambda>s7. print w c z s7)))) = files s
   \<and> (\<exists>prints. events (snd (and_then (print w a x s) (\<lambda>s6. and_then (print w b y s6) (\<lambda>s7. print w c z s7))))
         = events s @ prints \<and> (\<forall>e \<in> set prints. \<forall>q. \<not> touches q e))"
  by (cases "io_error w a"; cases "io_error w b"; cases "io_error w c")
    (simp_all add: print_def and_then_def)

lemma log_startup_lines:
  assumes "startup_log_ok w"
  shows "\<exists>prints. events (snd (log_startup w f s)) = events s @
       [Append (LOG_FILE f) (strftime (localtime w (clock s)) @ '': Starting RebasedCode Git Sync Runner'' @ nl),
        Append (LOG_FILE f) (strftime (localtime w (Suc (clock s))) @ '': Script path: '' @ SCRIPT_PATH f @ nl)]
       @ prints \<and> (\<forall>e \<in> set prints. \<forall>q. \<not> touches q e)"
    and "content (snd (log_startup w f s)) (LOG_FILE f) = content s (LOG_FILE f)
          @ (strftime (localtime w (clock s)) @ '': Starting RebasedCode Git Sync Runner'' @ nl)
          @ (strftime (localtime w (Suc (clock s))) @ '': Script path: '' @ SCRIPT_PATH f @ nl)"
proof -
  let ?l1 = "strftime (localtime w (clock s)) @ '': Starting RebasedCode Git Sync Runner'' @ nl"
  let ?l2 = "strftime (localtime w (Suc (clock s))) @ '': Script path: '' @ SCRIPT_PATH f @ nl"
  let ?s5 = "s\<lparr>clock := Suc (Suc (clock s)),
       files := (files s)(LOG_FILE f \<mapsto> content s (LOG_FILE f) @ ?l1 @ ?l2),
       events := events s @ [Append (LOG_FILE f) ?l1, Append (LOG_FILE f) ?l2]\<rparr>"
  let ?r = "and_then (print w Print_start ''Starting RebasedCode Git Sync process...'' ?s5) (\<lambda>s6.
             and_then (print w Print_path (''Script path: '' @ SCRIPT_PATH f) s6) (\<lambda>s7.
               print w Print_logs
                 (''Logs will be written to '' @ LOG_FILE f @ '' and '' @ ERROR_LOG f) s7))"
  have e: "log_startup w f s = ?r"
    using assms
    by (simp add: log_startup_def open_append_def f_write_def append_file_def time_strftime_def
        content_def startup_log_ok_def and_then_def [of "(Inr u, t)" for u t])
  from prints_quiet [of w Print_start _ ?s5 Print_path _ Print_logs]
  obtain prints where p: "files (snd ?r) = files ?s5" "events (snd ?r) = events ?s5 @ prints"
    "\<forall>e \<in> set prints. \<forall>q. \<not> touches q e"
    by blast
  from p(2,3) show "\<exists>prints. events (snd (log_startup w f s)) = events s @
       [Append (LOG_FILE f) ?l1, Append (LOG_FILE f) ?l2] @ prints
       \<and> (\<forall>e \<in> set prints. \<forall>q. \<not> touches q e)"
    unfolding e by simp
  from p(1) show "content (snd (log_startup w f s)) (LOG_FILE f) = content s (LOG_FILE f) @ ?l1 @ ?l2"
    unfolding e by (simp add: content_def)
qed

lemma at_start_fields:
  "files (at_start w s) = files s" "clock (at_start w s) = clock s"
  "events (at_start w s) = events s @ [Setenv ''PYTHONUNBUFFERED'' ''1'', System (relabel_command (getpid w))]"
  "content (at_start w s) p = content s p"
  by (simp_all add: at_start_def setenv_def os_system_def content_def)

lemma files_before_try: "p \<noteq> LOG_FILE f \<Longrightarrow> files (before_try w f s) p = files s p"
  using only_file_log_startup [of f "at_start w s" w]
  by (simp add: only_file_def before_try_def at_start_fields)

lemma main_resolved:
  assumes "abspath_file w = Inr f" and "startup_ok w"
  shows "main w s =
     (case try_body w f (before_try w f s) of
        (Hangs, s4) \<Rightarrow> (Blocked, s4)
      | (SysExit n, s4) \<Rightarrow> (sys_exit w n, s4)
      | (Raised (PyException e), s4) \<Rightarrow> except_Exception w f e s4
      | (Raised (PyBaseException e), s4) \<Rightarrow> (Uncaught (PyBaseException e), s4))"
  using assms log_startup_at_start [OF assms(2), of f s]
  by (simp add: main_def at_start_def Let_def)

lemma main_startup_fails:
  assumes "abspath_file w = Inr f" and "fst (log_startup w f (at_start w s)) = Inl e"
  shows "main w s = (Uncaught e, snd (log_startup w f (at_start w s)))"
  using assms
  by (cases "log_startup w f (at_start w s)") (simp add: main_def at_start_def Let_def)

subsection \<open>The try statement and its handler\<close>

lemma Popen_before_try:
  "fst (Popen w [''/bin/bash'', x] (before_try w f s)) = fst (Popen w [''/bin/bash'', x] s)"
  by (simp add: Popen_def files_before_try bash_neq_LOG_FILE split: option.splits)

lemma try_body_spawn_fails:
  assumes "fst (Popen w [''/bin/bash'', SCRIPT_PATH f] s) = Inl e"
  shows "try_body w f (before_try w f s) = (Raised e, before_try w f s)"
proof -
  let ?P = "Popen w [''/bin/bash'', SCRIPT_PATH f] (before_try w f s)"
  have "fst ?P = Inl e" using assms by (simp add: Popen_before_try)
  moreover from this have "snd ?P = before_try w f s" by (rule Popen_snd)
  ultimately have "?P = (Inl e, before_try w f s)" by (simp add: prod_eq_iff)
  then show ?thesis by (simp add: try_body_def)
qed

lemma try_body_spawned:
  assumes "fst (Popen w [''/bin/bash'', SCRIPT_PATH f] s) = Inr u"
  shows "try_body w f (before_try w f s) =
     (case communicate w of
        Blocks \<Rightarrow> (Hangs, waiting w f s)
      | Raises e \<Rightarrow> (Raised e, waiting w f s)
      | Completed out err returncode \<Rightarrow>
          (case log_termination w f returncode err (waiting w f s) of
             (Inl e, s2) \<Rightarrow> (Raised e, s2)
           | (Inr _, s2) \<Rightarrow> (SysExit 1, s2)))"
proof -
  let ?P = "Popen w [''/bin/bash'', SCRIPT_PATH f] (before_try w f s)"
  have "fst ?P = Inr u" using assms by (simp add: Popen_before_try)
  moreover from this have "snd ?P = (before_try w f s)\<lparr>events := events (before_try w f s) @ [Spawn [''/bin/bash'', SCRIPT_PATH f]]\<rparr>"
    by (rule Popen_snd)
  ultimately have "?P = (Inr u, (before_try w f s)\<lparr>events := events (before_try w f s) @ [Spawn [''/bin/bash'', SCRIPT_PATH f]]\<rparr>)"
    by (simp add: prod_eq_iff)
  then show ?thesis by (simp add: try_body_def waiting_def split: comm_result.splits)
qed

lemma try_body_SysExit: "fst (try_body w f s) = SysExit n \<Longrightarrow> n = 1"
  by (auto simp: try_body_def split: prod.splits sum.splits comm_result.splits)

lemma except_Exception_eq:
  assumes "handler_ok w"
  shows "except_Exception w f e s1 =
     (sys_exit w 1, s1\<lparr>files := (files s1)(ERROR_LOG f \<mapsto> content s1 (ERROR_LOG f)
                       @ exception_record (strftime (localtime w (clock s1))) e),
                   clock := Suc (clock s1),
                   events := events s1 @ [Append (ERROR_LOG f) (exception_record (strftime (localtime w (clock s1))) e)]\<rparr>)"
  using assms by (simp add: except_Exception_def effect_defs exception_record_def ok_defs)


lemma except_Exception_status:
  "fst (except_Exception w f e s1) = Exited n \<Longrightarrow> n = (if flush_fails w then 120 else 1)"
  by (auto simp: except_Exception_def sys_exit_def split: prod.splits sum.splits)

lemma log_termination_eq:
  assumes "termination_ok w"
  shows "log_termination w f returncode err s1 =
     ((case decode_failure w err of Some e \<Rightarrow> Inl e | None \<Rightarrow> Inr ()),
      s1\<lparr>files := (files s1)(ERROR_LOG f \<mapsto> content s1 (ERROR_LOG f)
              @ termination_record (strftime (localtime w (clock s1))) (Some returncode) (logged_text w err)),
          clock := Suc (clock s1),
          events := events s1 @
            [Append (ERROR_LOG f) (strftime (localtime w (clock s1)) @ '': Git sync process terminated unexpectedly'' @ nl),
             Append (ERROR_LOG f) (''Return code: '' @ str_int returncode @ nl)]
            @ (case logged_text w err of None \<Rightarrow> []
               | Some text \<Rightarrow> [Append (ERROR_LOG f) (''Error output: '' @ text @ nl)])\<rparr>)"
  using assms
  by (simp add: log_termination_def effect_defs termination_record_def logged_text_def
      decode_failure_def ok_defs split: sum.splits)

lemma content_before_try:
  "content (before_try w f s) (ERROR_LOG f) = content s (ERROR_LOG f)"
  "content (waiting w f s) (ERROR_LOG f) = content s (ERROR_LOG f)"
  by (simp_all add: content_def waiting_def files_before_try ERROR_LOG_neq_LOG_FILE)

lemma clock_before_try:
  "startup_ok w \<Longrightarrow> clock (before_try w f s) = clock s + 2"
  "startup_ok w \<Longrightarrow> clock (waiting w f s) = clock s + 2"
  by (simp_all add: before_try_eq waiting_def)

lemma main_spawn_fails:
  assumes "abspath_file w = Inr f" and "startup_ok w"
    and "fst (Popen w [''/bin/bash'', SCRIPT_PATH f] s) = Inl e"
  shows "main w s = (case e of PyException d \<Rightarrow> except_Exception w f d (before_try w f s)
                     | PyBaseException d \<Rightarrow> (Uncaught e, before_try w f s))"
  using assms by (simp add: main_resolved try_body_spawn_fails split: pyexc.splits)

lemma main_blocks:
  assumes "abspath_file w = Inr f" and "startup_ok w"
    and "fst (Popen w [''/bin/bash'', SCRIPT_PATH f] s) = Inr u"
    and "communicate w = Blocks"
  shows "main w s = (Blocked, waiting w f s)"
  using assms by (simp add: main_resolved try_body_spawned)

lemma main_wait_raises:
  assumes "abspath_file w = Inr f" and "startup_ok w"
    and "fst (Popen w [''/bin/bash'', SCRIPT_PATH f] s) = Inr u"
    and "communicate w = Raises e"
  shows "main w s = (case e of PyException d \<Rightarrow> except_Exception w f d (waiting w f s)
                     | PyBaseException d \<Rightarrow> (Uncaught e, waiting w f s))"
  using assms by (simp add: main_resolved try_body_spawned split: pyexc.splits)

lemma main_completed:
  assumes "abspath_file w = Inr f" and "startup_ok w"
    and "fst (Popen w [''/bin/bash'', SCRIPT_PATH f] s) = Inr u"
    and "communicate w = Completed out err returncode"
    and "termination_ok w"
  shows "main w s =
     (case decode_failure w err of
        None \<Rightarrow> (sys_exit w 1, terminated w f returncode err s)
      | Some (PyException d) \<Rightarrow> except_Exception w f d (terminated w f returncode err s)
      | Some (PyBaseException d) \<Rightarrow> (Uncaught (PyBaseException d), terminated w f returncode err s))"
  using assms(1-4)
  by (simp add: main_resolved try_body_spawned terminated_def log_termination_eq [OF assms(5)]
      split: option.splits pyexc.splits)

lemma terminated_eq:
  assumes "startup_ok w" and "termination_ok w"
  shows "terminated w f returncode err s =
     (waiting w f s)\<lparr>files := (files (waiting w f s))(ERROR_LOG f \<mapsto> content s (ERROR_LOG f)
              @ termination_record (timestamp w s 2) (Some returncode) (logged_text w err)),
          clock := clock s + 3,
          events := events (waiting w f s) @
            [Append (ERROR_LOG f) (timestamp w s 2 @ '': Git sync process terminated unexpectedly'' @ nl),
             Append (ERROR_LOG f) (''Return code: '' @ str_int returncode @ nl)]
            @ (case logged_text w err of None \<Rightarrow> []
               | Some text \<Rightarrow> [Append (ERROR_LOG f) (''Error output: '' @ text @ nl)])\<rparr>"
  by (simp add: terminated_def log_termination_eq [OF assms(2)] content_before_try
      clock_before_try [OF assms(1)] timestamp_def)

lemma content_terminated:
  assumes "startup_ok w" and "termination_ok w"
  shows "content (terminated w f returncode err s) (ERROR_LOG f) =
     content s (ERROR_LOG f) @ termination_record (timestamp w s 2) (Some returncode) (logged_text w err)"
    and "clock (terminated w f returncode err s) = clock s + 3"
  by (simp_all add: terminated_eq [OF assms] content_def)

lemma content_except_Exception:
  assumes "handler_ok w"
  shows "content (snd (except_Exception w f e s1)) (ERROR_LOG f) =
     content s1 (ERROR_LOG f) @ exception_record (strftime (localtime w (clock s1))) e"
    and "fst (except_Exception w f e s1) = sys_exit w 1"
  by (simp_all add: except_Exception_eq [OF assms] content_def)

lemma error_log_content:
  assumes "abspath_file w = Inr f" and "startup_ok w" and "error_log_ok w"
  shows "content (snd (main w s)) (ERROR_LOG f) =
           content s (ERROR_LOG f) @ concat (map render (error_entries w f s))"
proof -
  from assms(3) have t: "termination_ok w" and h: "handler_ok w"
    by (simp_all add: error_log_ok_def)
  note c = clock_before_try [OF assms(2)]
  show ?thesis
  proof (cases "fst (Popen w [''/bin/bash'', SCRIPT_PATH f] s)")
    case (Inl e)
    then show ?thesis using assms(1,2)
      by (cases e)
        (simp_all add: main_spawn_fails error_entries_def content_except_Exception [OF h]
          content_before_try c timestamp_def)
  next
    case (Inr u)
    show ?thesis
    proof (cases "communicate w")
      case Blocks
      with Inr assms(1,2) show ?thesis
        by (simp add: main_blocks error_entries_def content_before_try)
    next
      case (Raises e)
      with Inr assms(1,2) show ?thesis
        by (cases e)
          (simp_all add: main_wait_raises error_entries_def content_except_Exception [OF h]
            content_before_try c timestamp_def)
    next
      case (Completed out err returncode)
      note m = main_completed [OF assms(1,2) Inr Completed t]
      show ?thesis
      proof (cases "decode_failure w err")
        case None
        with Completed Inr show ?thesis
          by (simp add: m error_entries_def content_terminated [OF assms(2) t])
      next
        case (Some e)
        with Completed Inr show ?thesis
          by (cases e)
            (simp_all add: m error_entries_def content_terminated [OF assms(2) t]
              content_except_Exception [OF h] timestamp_def)
      qed
    qed
  qed
qed

lemma exit_status:
  assumes "fst (main w s) = Exited n"
  shows "n = (if flush_fails w then 120 else 1)"
proof (cases "abspath_file w")
  case (Inl e)
  with assms show ?thesis by (simp add: main_unresolved)
next
  case (Inr f)
  show ?thesis
  proof (cases "startup_ok w")
    case False
    from log_startup_fails [OF False] obtain e
      where "fst (log_startup w f (at_start w s)) = Inl e" by blast
    from main_startup_fails [OF Inr this] assms show ?thesis by simp
  next
    case True
    obtain c s4 where t: "try_body w f (before_try w f s) = (c, s4)"
      by (cases "try_body w f (before_try w f s)")
    show ?thesis
    proof (cases c)
      case (Raised e)
      with assms t show ?thesis
        by (cases e) (simp_all add: main_resolved [OF Inr True] except_Exception_status)
    next
      case (SysExit m)
      with t have "m = 1" using try_body_SysExit [of w f "before_try w f s" m] by simp
      with assms t SysExit show ?thesis
        by (simp add: main_resolved [OF Inr True] sys_exit_def split: if_splits)
    next
      case Hangs
      with assms t show ?thesis by (simp add: main_resolved [OF Inr True])
    qed
  qed
qed

lemma Popen_ok:
  "spawn_error w = None \<Longrightarrow> files s ''/bin/bash'' \<noteq> None \<Longrightarrow> fst (Popen w [''/bin/bash'', x] s) = Inr ()"
  by (simp add: Popen_def)

lemma main_step5_raises:
  assumes "abspath_file w = Inr f" and "startup_ok w" and "step5_raises w f s (PyException e)"
  shows "main w s = except_Exception w f e (before_try w f s)
       \<or> main w s = except_Exception w f e (waiting w f s)"
proof (cases "fst (Popen w [''/bin/bash'', SCRIPT_PATH f] s)")
  case (Inl e')
  with assms show ?thesis by (simp add: step5_raises_def main_spawn_fails)
next
  case (Inr u)
  with assms show ?thesis by (simp add: step5_raises_def main_wait_raises)
qed

lemma main_step5_content:
  assumes "abspath_file w = Inr f" and "startup_ok w" and "step5_raises w f s (PyException e)"
    and "handler_ok w"
  shows "fst (main w s) = sys_exit w 1"
    and "content (snd (main w s)) (ERROR_LOG f) =
           content s (ERROR_LOG f) @ exception_record (timestamp w s 2) e"
  using main_step5_raises [OF assms(1-3)]
  by (auto simp: content_except_Exception [OF assms(4)] content_before_try
      clock_before_try [OF assms(2)] timestamp_def)

subsection \<open>The run as a whole\<close>

lemma main_after_startup:
  assumes "abspath_file w = Inr f" and "startup_ok w"
  shows "only_file (ERROR_LOG f) (before_try w f s) (snd (main w s))"
proof -
  obtain c s4 where t: "try_body w f (before_try w f s) = (c, s4)"
    by (cases "try_body w f (before_try w f s)")
  have o: "only_file (ERROR_LOG f) (before_try w f s) s4"
    using only_file_try_body [of f "before_try w f s" w] t by simp
  show ?thesis
  proof (cases c)
    case (Raised e)
    show ?thesis
    proof (cases e)
      case (PyException d)
      have "only_file (ERROR_LOG f) (before_try w f s) (snd (except_Exception w f d s4))"
        by (rule only_file_trans [OF o only_file_except_Exception])
      with t Raised PyException show ?thesis by (simp add: main_resolved [OF assms])
    next
      case (PyBaseException d)
      with t Raised o show ?thesis by (simp add: main_resolved [OF assms])
    qed
  next
    case (SysExit n)
    with t o show ?thesis by (simp add: main_resolved [OF assms])
  next
    case Hangs
    with t o show ?thesis by (simp add: main_resolved [OF assms])
  qed
qed

lemma events_before_try:
  "startup_ok w \<Longrightarrow> events (before_try w f s) = events s @ startup_events w f s"
  by (simp add: before_try_eq)

lemma new_events_shape:
  assumes "abspath_file w = Inr f" and "startup_ok w"
  shows "\<exists>tail. new_events w s = startup_events w f s @ tail
            \<and> (\<forall>e \<in> set tail. \<not> touches (LOG_FILE f) e)"
proof -
  from main_after_startup [OF assms, of s] obtain tail
    where t: "events (snd (main w s)) = events (before_try w f s) @ tail"
      "\<forall>e \<in> set tail. \<forall>q. touches q e \<longrightarrow> q = ERROR_LOG f"
    by (auto simp: only_file_def)
  from t(1) have "new_events w s = startup_events w f s @ tail"
    by (simp add: new_events_def events_before_try [OF assms(2)])
  moreover from t(2) have "\<forall>e \<in> set tail. \<not> touches (LOG_FILE f) e"
    using LOG_FILE_neq_ERROR_LOG [of f] by blast
  ultimately show ?thesis by blast
qed

lemma new_events_startup_fails:
  assumes "abspath_file w = Inr f" and "\<not> startup_ok w"
  shows "\<forall>e \<in> set (new_events w s). \<not> touches (ERROR_LOG f) e"
proof -
  from log_startup_fails [OF assms(2)] obtain e
    where "fst (log_startup w f (at_start w s)) = Inl e" by blast
  from main_startup_fails [OF assms(1) this]
  have m: "snd (main w s) = snd (log_startup w f (at_start w s))" by simp
  from only_file_log_startup [of f "at_start w s" w] obtain tail
    where t: "events (snd (log_startup w f (at_start w s))) = events (at_start w s) @ tail"
      "\<forall>e \<in> set tail. \<forall>q. touches q e \<longrightarrow> q = LOG_FILE f"
    by (auto simp: only_file_def)
  have "new_events w s = [Setenv ''PYTHONUNBUFFERED'' ''1'', System (relabel_command (getpid w))] @ tail"
    by (simp add: new_events_def m t(1) at_start_fields)
  moreover from t(2) have "\<forall>e \<in> set tail. \<not> touches (ERROR_LOG f) e"
    using ERROR_LOG_neq_LOG_FILE [of f] by blast
  ultimately show ?thesis by simp
qed

lemma main_after_log_startup:
  assumes "abspath_file w = Inr f"
  shows "only_file (ERROR_LOG f) (snd (log_startup w f (at_start w s))) (snd (main w s))"
proof (cases "startup_ok w")
  case True
  from main_after_startup [OF assms True, of s] show ?thesis by (simp add: before_try_def)
next
  case False
  from log_startup_fails [OF False] obtain e
    where "fst (log_startup w f (at_start w s)) = Inl e" by blast
  from main_startup_fails [OF assms this] show ?thesis by (simp add: only_file_refl)
qed

lemma files_grow:
  "prefix (content s p) (content (snd (main w s)) p)
   \<and> (files s p \<noteq> None \<longrightarrow> files (snd (main w s)) p \<noteq> None)"
proof (cases "abspath_file w")
  case (Inl e)
  then show ?thesis by (simp add: main_unresolved setenv_def content_def)
next
  case (Inr f)
  let ?S = "snd (log_startup w f (at_start w s))"
  have a: "prefix (content s p) (content ?S p)" "files s p \<noteq> None \<longrightarrow> files ?S p \<noteq> None"
    using only_file_grows [where q = p, OF only_file_log_startup [of f "at_start w s" w]]
    by (simp_all add: at_start_fields)
  from only_file_grows [where q = p, OF main_after_log_startup [OF Inr, of s]]
  have b: "prefix (content ?S p) (content (snd (main w s)) p)"
    "files ?S p \<noteq> None \<longrightarrow> files (snd (main w s)) p \<noteq> None"
    by simp_all
  from a b show ?thesis by (auto intro: prefix_order.trans)
qed

lemma startup_log_content:
  assumes "abspath_file w = Inr f" and "startup_log_ok w"
  shows "content (snd (main w s)) (LOG_FILE f) =
           content s (LOG_FILE f)
           @ (timestamp w s 0 @ '': Starting RebasedCode Git Sync Runner'' @ nl)
           @ (timestamp w s 1 @ '': Script path: '' @ SCRIPT_PATH f @ nl)"
proof -
  have "content (snd (main w s)) (LOG_FILE f) = content (snd (log_startup w f (at_start w s))) (LOG_FILE f)"
    by (rule only_file_other [OF main_after_log_startup [OF assms(1)] LOG_FILE_neq_ERROR_LOG])
  then show ?thesis
    by (simp add: log_startup_lines(2) [OF assms(2)] at_start_fields timestamp_def)
qed

lemma startup_log_writes:
  assumes "abspath_file w = Inr f" and "startup_log_ok w"
  shows "writes_to (LOG_FILE f) (new_events w s) =
     [timestamp w s 0 @ '': Starting RebasedCode Git Sync Runner'' @ nl,
      timestamp w s 1 @ '': Script path: '' @ SCRIPT_PATH f @ nl]"
proof -
  let ?S = "snd (log_startup w f (at_start w s))"
  from main_after_log_startup [OF assms(1), of s] obtain tail
    where t: "events (snd (main w s)) = events ?S @ tail"
      "\<forall>e \<in> set tail. \<forall>q. touches q e \<longrightarrow> q = ERROR_LOG f"
    by (auto simp: only_file_def)
  from log_startup_lines(1) [OF assms(2), of f "at_start w s"] obtain prints
    where p: "events ?S = events (at_start w s) @
       [Append (LOG_FILE f) (timestamp w s 0 @ '': Starting RebasedCode Git Sync Runner'' @ nl),
        Append (LOG_FILE f) (timestamp w s 1 @ '': Script path: '' @ SCRIPT_PATH f @ nl)] @ prints"
      "\<forall>e \<in> set prints. \<forall>q. \<not> touches q e"
    by (auto simp: at_start_fields timestamp_def)
  have q: "\<forall>e \<in> set prints. \<not> touches (LOG_FILE f) e" "\<forall>e \<in> set tail. \<not> touches (LOG_FILE f) e"
    using p(2) t(2) LOG_FILE_neq_ERROR_LOG [of f] by auto
  have "new_events w s = [Setenv ''PYTHONUNBUFFERED'' ''1'', System (relabel_command (getpid w)),
       Append (LOG_FILE f) (timestamp w s 0 @ '': Starting RebasedCode Git Sync Runner'' @ nl),
       Append (LOG_FILE f) (timestamp w s 1 @ '': Script path: '' @ SCRIPT_PATH f @ nl)] @ (prints @ tail)"
    by (simp add: new_events_def t(1) p(1) at_start_fields)
  then show ?thesis
    by (simp add: writes_to_append writes_to_untouched [OF q(1)] writes_to_untouched [OF q(2)])
qed

lemma appended_startup_log:
  assumes "abspath_file w = Inr f" and "startup_log_ok w"
  shows "appended w s (LOG_FILE f) =
     (timestamp w s 0 @ '': Starting RebasedCode Git Sync Runner'') @ CHR 0x0A
       # (timestamp w s 1 @ '': Script path: '' @ SCRIPT_PATH f) @ CHR 0x0A # []"
  by (simp add: appended_def startup_log_content [OF assms] nl_def)

subsection \<open>What reaches the error log when writes may fail\<close>





subsection \<open>Runs in which a log can not be written\<close>

lemma log_termination_locked:
  "io_error w Open_error_log = Some e \<Longrightarrow> log_termination w f returncode err s = (Inl e, s)"
  by (simp add: log_termination_def open_append_def and_then_def)

lemma except_Exception_locked:
  "io_error w Open_error_log_handler = Some e' \<Longrightarrow> except_Exception w f e s = (Uncaught e', s)"
  by (simp add: except_Exception_def open_append_def and_then_def)

lemma log_startup_path_line_fails:
  assumes "io_error w Open_startup_log = None" and "io_error w Write_start_line = None"
    and "io_error w Write_path_line = Some e"
  shows "fst (log_startup w f s) = Inl e"
    and "content (snd (log_startup w f s)) (LOG_FILE f) = content s (LOG_FILE f)
          @ strftime (localtime w (clock s)) @ '': Starting RebasedCode Git Sync Runner'' @ nl"
  using assms by (simp_all add: log_startup_def effect_defs)

section \<open>The example runs, evaluated\<close>

lemma completed_content:
  assumes "abspath_file w = Inr f" and "startup_ok w" and "error_log_ok w"
    and "spawn_error w = None" and "files s ''/bin/bash'' \<noteq> None"
    and "communicate w = Completed out err returncode"
  shows "content (snd (main w s)) (ERROR_LOG f) =
           content s (ERROR_LOG f)
           @ termination_record (timestamp w s 2) (Some returncode) (logged_text w err)
           @ (case decode_failure w err of
                Some (PyException e) \<Rightarrow> exception_record (timestamp w s 3) e
              | _ \<Rightarrow> [])"
proof -
  have p: "fst (Popen w [''/bin/bash'', SCRIPT_PATH f] s) = Inr ()"
    using assms(4,5) by (rule Popen_ok)
  have e: "error_entries w f s =
      Termination (timestamp w s 2) (Some returncode) (logged_text w err)
      # (case decode_failure w err of
           Some (PyException e) \<Rightarrow> [Exception (timestamp w s 3) e]
         | _ \<Rightarrow> [])"
    by (simp add: error_entries_def p assms(6))
  show ?thesis
    unfolding error_log_content [OF assms(1-3)] e
    by (simp split: option.splits pyexc.splits)
qed

lemma completed_status:
  assumes "abspath_file w = Inr f" and "startup_ok w" and "error_log_ok w"
    and "spawn_error w = None" and "files s ''/bin/bash'' \<noteq> None"
    and "communicate w = Completed out err returncode"
  shows "fst (main w s) =
     (case decode_failure w err of
        Some (PyBaseException d) \<Rightarrow> Uncaught (PyBaseException d)
      | _ \<Rightarrow> sys_exit w 1)"
proof -
  from assms(3) have t: "termination_ok w" and h: "handler_ok w"
    by (simp_all add: error_log_ok_def)
  have p: "fst (Popen w [''/bin/bash'', SCRIPT_PATH f] s) = Inr ()"
    using assms(4,5) by (rule Popen_ok)
  show ?thesis
    by (simp add: main_completed [OF assms(1,2) p assms(6) t] content_except_Exception [OF h]
        split: option.splits pyexc.splits)
qed

lemma no_io_error_ok:
  assumes "io_error w = (\<lambda>st. None)"
  shows "startup_log_ok w" "startup_ok w" "termination_ok w" "handler_ok w" "error_log_ok w"
  using assms by (simp_all add: ok_defs)

lemma digit_chars:
  "digit_char 0 = CHR ''0''" "digit_char 1 = CHR ''1''" "digit_char 2 = CHR ''2''"
  "digit_char 3 = CHR ''3''" "digit_char 4 = CHR ''4''" "digit_char 5 = CHR ''5''"
  "digit_char 6 = CHR ''6''" "digit_char 7 = CHR ''7''" "digit_char 8 = CHR ''8''"
  "digit_char 9 = CHR ''9''" "digit_char (Suc 0) = CHR ''1''"
  "digit_char (Suc (Suc 0)) = CHR ''2''" "digit_char (Suc (Suc (Suc 0))) = CHR ''3''"
  by (simp_all add: digit_char_def char_of_eq_iff)

lemma example_paths:
  "SCRIPT_PATH ''/opt/sync/git_sync_runner.py'' = ''/opt/sync/auto_git_sync.sh''"
  "LOG_FILE ''/opt/sync/git_sync_runner.py'' = ''/opt/sync/sync_log.txt''"
  "ERROR_LOG ''/opt/sync/git_sync_runner.py'' = ''/opt/sync/sync_error.log''"
  by (simp_all add: SCRIPT_PATH_def LOG_FILE_def ERROR_LOG_def REPO_PATH_def os_path_join_def
      os_path_dirname_def)

lemma example_timestamps:
  assumes "localtime w = localtime world_boom" and "clock s = 0"
  shows "timestamp w s 0 = ''2024-03-09 07:05:00''" "timestamp w s 1 = ''2024-03-09 07:05:01''"
    "timestamp w s 2 = ''2024-03-09 07:05:02''" "timestamp w s 3 = ''2024-03-09 07:05:03''"
  using assms
  by (simp_all add: timestamp_def world_boom_def strftime_def pad2_def str_nat_4 str_nat_1 digit_chars)

lemma example_timestamp_Suc:
  assumes "localtime w = localtime world_boom" and "clock s = 0"
  shows "timestamp w s (Suc 0) = ''2024-03-09 07:05:01''"
  using example_timestamps(2) [OF assms] by simp

lemma example_codes:
  "str_int 3 = ''3''" "str_int 127 = ''127''" "str_int 1 = ''1''" "str_int 0 = ''0''"
  by (simp_all add: str_int_def str_nat_1 str_nat_3 digit_chars)

lemma example_spawn:
  "spawn_error w = None \<Longrightarrow> fst (Popen w [''/bin/bash'', x] state_bash) = Inr ()"
  "spawn_error w = None \<Longrightarrow> fst (Popen w [''/bin/bash'', x] state_no_bash) =
     Inl (PyException (''[Errno 2] No such file or directory: '' @ [CHR 0x27] @ ''/bin/bash'' @ [CHR 0x27]))"
  by (simp_all add: Popen_def state_bash_def state_no_bash_def)

lemma example_fields:
  "abspath_file world_boom = Inr ''/opt/sync/git_sync_runner.py''"
  "spawn_error world_boom = None"
  "communicate world_boom = Completed ''hello'' ''boom'' 3"
  "decode world_boom ''boom'' = Inr ''boom''"
  "decode_failure world_boom ''boom'' = None"
  "logged_text world_boom ''boom'' = Some ''boom''"
  "files state_bash ''/bin/bash'' \<noteq> None"
  "clock state_bash = 0" "clock state_no_bash = 0"
  "content state_bash ''/opt/sync/sync_error.log'' = []"
  "content state_no_bash ''/opt/sync/sync_error.log'' = []"
  "content state_bash ''/opt/sync/sync_log.txt'' = []"
  "io_error world_boom = (\<lambda>st. None)"
  "flush_fails world_boom = False"
  by (simp_all add: world_boom_def state_bash_def state_no_bash_def ascii_decode_def
      decode_failure_def logged_text_def content_def)

lemma example_ok:
  "startup_log_ok world_boom" "startup_ok world_boom" "termination_ok world_boom"
  "handler_ok world_boom" "error_log_ok world_boom"
  by (rule no_io_error_ok [OF example_fields(13)])+

lemma example_outcomes:
  "fst (main world_boom state_bash) = Exited 1"
  "fst (main world_boom state_no_bash) = Exited 1"
proof -
  show "fst (main world_boom state_bash) = Exited 1"
    by (simp add: completed_status [OF example_fields(1) example_ok(2,5) example_fields(2,7,3)]
        example_fields sys_exit_def)
  show "fst (main world_boom state_no_bash) = Exited 1"
    by (simp add: main_spawn_fails [OF example_fields(1) example_ok(2) example_spawn(2) [OF example_fields(2)]]
        content_except_Exception [OF example_ok(4)] sys_exit_def example_fields)
qed

lemma example_events:
  "new_events world_boom state_bash =
     startup_events world_boom ''/opt/sync/git_sync_runner.py'' state_bash
     @ [Spawn [''/bin/bash'', ''/opt/sync/auto_git_sync.sh''], Wait,
        Append ''/opt/sync/sync_error.log'' (''2024-03-09 07:05:02: Git sync process terminated unexpectedly'' @ nl),
        Append ''/opt/sync/sync_error.log'' (''Return code: 3'' @ nl),
        Append ''/opt/sync/sync_error.log'' (''Error output: boom'' @ nl)]"
proof -
  have p: "fst (Popen world_boom [''/bin/bash'', SCRIPT_PATH ''/opt/sync/git_sync_runner.py''] state_bash) = Inr ()"
    by (simp add: example_spawn example_fields)
  have "events (snd (main world_boom state_bash)) = events state_bash
     @ startup_events world_boom ''/opt/sync/git_sync_runner.py'' state_bash
     @ [Spawn [''/bin/bash'', ''/opt/sync/auto_git_sync.sh''], Wait,
        Append ''/opt/sync/sync_error.log'' (''2024-03-09 07:05:02: Git sync process terminated unexpectedly'' @ nl),
        Append ''/opt/sync/sync_error.log'' (''Return code: 3'' @ nl),
        Append ''/opt/sync/sync_error.log'' (''Error output: boom'' @ nl)]"
    unfolding main_completed [OF example_fields(1) example_ok(2) p example_fields(3) example_ok(3)]
      example_fields(5)
    by (simp add: terminated_eq [OF example_ok(2,3)] waiting_def events_before_try [OF example_ok(2)]
        example_fields example_paths example_timestamps example_codes)
  then show ?thesis by (simp add: new_events_def)
qed

text \<open>The other example runs differ from \<open>world_boom\<close> in the fields named in their
  definitions.\<close>

lemma example_same:
  "abspath_file world_quiet = Inr ''/opt/sync/git_sync_runner.py''"
  "abspath_file world_no_script = Inr ''/opt/sync/git_sync_runner.py''"
  "abspath_file world_interrupt = Inr ''/opt/sync/git_sync_runner.py''"
  "abspath_file world_wait_fails = Inr ''/opt/sync/git_sync_runner.py''"
  "abspath_file world_latin1 = Inr ''/opt/sync/git_sync_runner.py''"
  "abspath_file world_full_stdout = Inr ''/opt/sync/git_sync_runner.py''"
  "abspath_file world_sigchld = Inr ''/opt/sync/git_sync_runner.py''"
  "abspath_file world_pipes_held = Inr ''/opt/sync/git_sync_runner.py''"
  "abspath_file world_locked_log = Inr ''/opt/sync/git_sync_runner.py''"
  "io_error world_quiet = (\<lambda>st. None)" "io_error world_no_script = (\<lambda>st. None)"
  "io_error world_interrupt = (\<lambda>st. None)" "io_error world_wait_fails = (\<lambda>st. None)"
  "io_error world_latin1 = (\<lambda>st. None)" "io_error world_full_stdout = (\<lambda>st. None)"
  "io_error world_sigchld = (\<lambda>st. None)" "io_error world_pipes_held = (\<lambda>st. None)"
  "io_error world_newline = (\<lambda>st. None)" "io_error world_no_cwd = (\<lambda>st. None)"
  "spawn_error world_quiet = None" "spawn_error world_no_script = None"
  "spawn_error world_interrupt = None" "spawn_error world_wait_fails = None"
  "spawn_error world_latin1 = None" "spawn_error world_full_stdout = None"
  "spawn_error world_sigchld = None" "spawn_error world_pipes_held = None"
  "spawn_error world_locked_log = None"
  "localtime world_quiet = localtime world_boom" "localtime world_no_script = localtime world_boom"
  "localtime world_interrupt = localtime world_boom" "localtime world_wait_fails = localtime world_boom"
  "localtime world_latin1 = localtime world_boom" "localtime world_full_stdout = localtime world_boom"
  "localtime world_sigchld = localtime world_boom" "localtime world_pipes_held = localtime world_boom"
  "localtime world_locked_log = localtime world_boom" "localtime world_newline = localtime world_boom"
  "localtime world_badbyte = localtime world_boom"
  by (simp_all add: world_quiet_def world_no_script_def world_interrupt_def world_wait_fails_def
      world_latin1_def world_full_stdout_def world_sigchld_def world_pipes_held_def
      world_locked_log_def world_newline_def world_no_cwd_def world_badbyte_def world_boom_def)

lemma example_content_before_try:
  "content (before_try w ''/opt/sync/git_sync_runner.py'' s) ''/opt/sync/sync_error.log'' =
     content s ''/opt/sync/sync_error.log''"
  "content (waiting w ''/opt/sync/git_sync_runner.py'' s) ''/opt/sync/sync_error.log'' =
     content s ''/opt/sync/sync_error.log''"
  using content_before_try [of w "''/opt/sync/git_sync_runner.py''" s]
  by (simp_all add: example_paths)

section \<open>The claims of the specification\<close>

text \<open>
  C3. Every run that reaches a terminal state, whether the child exits and the termination
  branch runs or an exception is caught, ends with a non-zero exit status: no run of the
  launcher exits with status zero.
\<close>

theorem exit_status_nonzero: "fst (main w s) = Exited n \<Longrightarrow> n \<noteq> 0"
  using exit_status [of w s n] by (simp split: if_splits)

theorem exit_status_nonzero_witness:
  "fst (main world_boom state_bash) = Exited 1 \<and> fst (main world_boom state_no_bash) = Exited 1
   \<and> (1::int) \<noteq> 0"
  using exit_status_nonzero [of world_boom state_bash 1]
    exit_status_nonzero [of world_boom state_no_bash 1]
  by (simp add: example_outcomes)

text \<open>
  C10, as amended. In every terminal state, in the branch of the unexpected termination of
  the child and in the branch of a caught exception, the exit status of the launcher is
  exactly 1 when the interpreter can flush the launcher's buffered standard output at exit,
  and exactly 120 when it can not. Both branches are reached: the first when
  \<open>communicate()\<close> returns and the captured error stream is decoded, the second when
  the decoding or step 5 raises an instance of \<open>Exception\<close>, provided that the logs can be
  written.
\<close>

theorem exit_status_one_unless_flush_fails:
  "(fst (main w s) = Exited n \<longrightarrow> n = (if flush_fails w then 120 else 1))
   \<and> (abspath_file w = Inr f \<and> startup_ok w \<and> error_log_ok w \<and> spawn_error w = None
        \<and> files s ''/bin/bash'' \<noteq> None
        \<and> communicate w = Completed out err returncode \<and> decode_failure w err = None
      \<longrightarrow> fst (main w s) = Exited (if flush_fails w then 120 else 1))
   \<and> (abspath_file w = Inr f \<and> startup_ok w \<and> error_log_ok w \<and> spawn_error w = None
        \<and> files s ''/bin/bash'' \<noteq> None
        \<and> communicate w = Completed out err returncode \<and> decode_failure w err = Some (PyException e)
      \<longrightarrow> fst (main w s) = Exited (if flush_fails w then 120 else 1))
   \<and> (abspath_file w = Inr f \<and> startup_ok w \<and> handler_ok w \<and> step5_raises w f s (PyException e)
      \<longrightarrow> fst (main w s) = Exited (if flush_fails w then 120 else 1))"
proof (intro conjI impI)
  assume "fst (main w s) = Exited n"
  then show "n = (if flush_fails w then 120 else 1)" by (rule exit_status)
next
  assume a: "abspath_file w = Inr f \<and> startup_ok w \<and> error_log_ok w \<and> spawn_error w = None
        \<and> files s ''/bin/bash'' \<noteq> None
        \<and> communicate w = Completed out err returncode \<and> decode_failure w err = None"
  then show "fst (main w s) = Exited (if flush_fails w then 120 else 1)"
    using completed_status [of w f s out err returncode] by (simp add: sys_exit_def)
next
  assume a: "abspath_file w = Inr f \<and> startup_ok w \<and> error_log_ok w \<and> spawn_error w = None
        \<and> files s ''/bin/bash'' \<noteq> None
        \<and> communicate w = Completed out err returncode \<and> decode_failure w err = Some (PyException e)"
  then show "fst (main w s) = Exited (if flush_fails w then 120 else 1)"
    using completed_status [of w f s out err returncode] by (simp add: sys_exit_def)
next
  assume "abspath_file w = Inr f \<and> startup_ok w \<and> handler_ok w \<and> step5_raises w f s (PyException e)"
  then show "fst (main w s) = Exited (if flush_fails w then 120 else 1)"
    using main_step5_content(1) [of w f s e] by (simp add: sys_exit_def)
qed

theorem exit_status_one_unless_flush_fails_witness:
  "fst (main world_boom state_bash) = Exited 1 \<and> fst (main world_latin1 state_bash) = Exited 1
   \<and> fst (main world_wait_fails state_bash) = Exited 1
   \<and> fst (main world_full_stdout state_bash) = Exited 120"
proof -
  let ?f = "''/opt/sync/git_sync_runner.py''"
  have a: "communicate world_latin1 = Completed [] cafe_latin1 1"
    "decode_failure world_latin1 cafe_latin1 = Some (PyException ''codec can not decode bytes'')"
    "flush_fails world_latin1 = False"
    by (simp_all add: world_latin1_def world_boom_def decode_failure_def ascii_decode_def
        cafe_latin1_def)
  have b: "step5_raises world_wait_fails ?f state_bash (PyException [])"
    "flush_fails world_wait_fails = False"
    by (simp_all add: world_wait_fails_def world_boom_def step5_raises_def Popen_def state_bash_def)
  have c: "communicate world_full_stdout = Completed ''hello'' ''boom'' 3"
    "decode_failure world_full_stdout ''boom'' = None"
    "flush_fails world_full_stdout = True"
    by (simp_all add: world_full_stdout_def world_boom_def decode_failure_def ascii_decode_def)
  show ?thesis
    using exit_status_one_unless_flush_fails [of world_boom state_bash 1 ?f "''hello''" "''boom''" 3]
      exit_status_one_unless_flush_fails [of world_latin1 state_bash 1 ?f "[]" cafe_latin1 1
        "''codec can not decode bytes''"]
      exit_status_one_unless_flush_fails [of world_wait_fails state_bash 1 ?f _ _ _ "[]"]
      exit_status_one_unless_flush_fails [of world_full_stdout state_bash 120 ?f "''hello''" "''boom''" 3]
    by (simp add: example_fields example_ok example_same a b c
        no_io_error_ok [OF example_same(14)] no_io_error_ok [OF example_same(13)]
        no_io_error_ok [OF example_same(15)])
qed

text \<open>
  C10, as stated, fails. Here the launcher's standard output is a full device: the messages
  of lines 32 to 34 stay in the buffer, \<open>sys.exit(1)\<close> is reached, the interpreter can not
  flush the buffer when it exits, and the exit status is 120, in the termination branch and
  in the branch of the caught exception alike.
\<close>

theorem flush_failure_counterexample:
  "flush_fails world_full_stdout
   \<and> main world_full_stdout state_bash =
       (Exited 120, snd (main world_boom state_bash))
   \<and> main world_full_stdout state_no_bash =
       (Exited 120, snd (main world_boom state_no_bash))"
proof -
  let ?f = "''/opt/sync/git_sync_runner.py''"
  let ?w = world_full_stdout
  note ok = no_io_error_ok [OF example_same(15)]
  have c: "communicate ?w = Completed ''hello'' ''boom'' 3"
    "decode_failure ?w ''boom'' = None" "logged_text ?w ''boom'' = Some ''boom''"
    "flush_fails ?w = True" "getpid ?w = getpid world_boom"
    "system_output ?w = system_output world_boom"
    by (simp_all add: world_full_stdout_def world_boom_def decode_failure_def logged_text_def
        ascii_decode_def)
  have t: "timestamp ?w s k = timestamp world_boom s k" for s k
    by (simp add: timestamp_def example_same)
  have b: "before_try ?w ?f s = before_try world_boom ?f s" for s
    by (simp add: before_try_eq [OF ok(2)] before_try_eq [OF example_ok(2)] t c startup_events_def)
  have p: "fst (Popen ?w [''/bin/bash'', SCRIPT_PATH ?f] state_bash) = Inr ()"
    by (simp add: example_spawn example_same)
  have p': "fst (Popen world_boom [''/bin/bash'', SCRIPT_PATH ?f] state_bash) = Inr ()"
    by (simp add: example_spawn example_fields)
  have "main ?w state_bash = (Exited 120, terminated ?w ?f 3 ''boom'' state_bash)"
    by (simp add: main_completed [OF example_same(6) ok(2) p c(1) ok(3)] c sys_exit_def)
  moreover have "snd (main world_boom state_bash) = terminated world_boom ?f 3 ''boom'' state_bash"
    by (simp add: main_completed [OF example_fields(1) example_ok(2) p' example_fields(3) example_ok(3)]
        example_fields)
  moreover have "terminated ?w ?f 3 ''boom'' state_bash = terminated world_boom ?f 3 ''boom'' state_bash"
    by (simp add: terminated_eq [OF ok(2,3)] terminated_eq [OF example_ok(2,3)] waiting_def b t c
        example_fields)
  moreover have "main ?w state_no_bash = (Exited 120, snd (main world_boom state_no_bash))"
    by (simp add: main_spawn_fails [OF example_same(6) ok(2) example_spawn(2) [OF example_same(25)]]
        main_spawn_fails [OF example_fields(1) example_ok(2) example_spawn(2) [OF example_fields(2)]]
        except_Exception_eq [OF ok(4)] except_Exception_eq [OF example_ok(4)] b sys_exit_def c
        example_same)
  ultimately show ?thesis by (simp add: c)
qed

text \<open>
  C9. The text that the child wrote to its standard output is discarded: two runs that differ
  in nothing but that text end with the same status, the same files, the same output of the
  launcher and the same effects.
\<close>

theorem child_stdout_discarded:
  "main (w\<lparr>communicate := Completed out err returncode\<rparr>) s =
   main (w\<lparr>communicate := Completed out' err returncode\<rparr>) s"
proof -
  have a: "open_append (w\<lparr>communicate := c\<rparr>) = open_append w"
    "f_write (w\<lparr>communicate := c\<rparr>) = f_write w"
    "print (w\<lparr>communicate := c\<rparr>) = print w"
    "time_strftime (w\<lparr>communicate := c\<rparr>) = time_strftime w"
    "Popen (w\<lparr>communicate := c\<rparr>) = Popen w"
    "os_system (w\<lparr>communicate := c\<rparr>) = os_system w"
    "sys_exit (w\<lparr>communicate := c\<rparr>) = sys_exit w" for c
    by (simp_all add: fun_eq_iff open_append_def f_write_def print_def time_strftime_def
        Popen_def os_system_def sys_exit_def)
  have b: "log_startup (w\<lparr>communicate := c\<rparr>) = log_startup w"
    "log_termination (w\<lparr>communicate := c\<rparr>) = log_termination w"
    "except_Exception (w\<lparr>communicate := c\<rparr>) = except_Exception w" for c
    by (simp_all add: fun_eq_iff log_startup_def log_termination_def except_Exception_def a
        cong: if_cong sum.case_cong prod.case_cong)
  have "try_body (w\<lparr>communicate := Completed out err returncode\<rparr>) f t =
      try_body (w\<lparr>communicate := Completed out' err returncode\<rparr>) f t" for f t
    by (simp add: try_body_def a b cong: sum.case_cong prod.case_cong)
  then show ?thesis
    by (simp add: main_def a b cong: sum.case_cong prod.case_cong completion.case_cong pyexc.case_cong)
qed

text \<open>
  C1, as amended. For every run that reaches line 38 and in which spawning the subprocess
  raises an error (an instance of \<open>Exception\<close>, as when \<open>/bin/bash\<close> does not exist),
  if the handler can open the error log and write to it, the launcher catches the error,
  appends exactly one Exception Record to the error log and nothing else, and exits with a
  non-zero status: 1, or 120 when the standard output can not be flushed. Whether the spawn
  fails is the same at the start of the run and at line 38: the writes to the startup log in
  between do not change it.
\<close>

theorem spawn_failure_logged:
  assumes "abspath_file w = Inr f" and "startup_ok w" and "handler_ok w"
    and "fst (Popen w [''/bin/bash'', SCRIPT_PATH f] s) = Inl (PyException e)"
  shows "fst (main w s) = Exited (if flush_fails w then 120 else 1)
     \<and> fst (main w s) \<noteq> Exited 0
     \<and> content (snd (main w s)) (ERROR_LOG f) =
         content s (ERROR_LOG f) @ exception_record (timestamp w s 2) e
     \<and> writes_to (ERROR_LOG f) (new_events w s) = [exception_record (timestamp w s 2) e]"
proof -
  note m = main_spawn_fails [OF assms(1,2,4)]
  have "events (snd (main w s)) = events s @ startup_events w f s
      @ [Append (ERROR_LOG f) (exception_record (timestamp w s 2) e)]"
    by (simp add: m except_Exception_eq [OF assms(3)] events_before_try [OF assms(2)]
        clock_before_try [OF assms(2)] timestamp_def)
  then have "new_events w s = startup_events w f s
      @ [Append (ERROR_LOG f) (exception_record (timestamp w s 2) e)]"
    by (simp add: new_events_def)
  then have "writes_to (ERROR_LOG f) (new_events w s) = [exception_record (timestamp w s 2) e]"
    by (simp add: writes_to_append startup_events_def LOG_FILE_neq_ERROR_LOG)
  then show ?thesis
    by (simp add: m content_except_Exception [OF assms(3)] content_before_try
        clock_before_try [OF assms(2)] timestamp_def sys_exit_def)
qed

theorem spawn_failure_logged_witness:
  "fst (main world_boom state_no_bash) = Exited 1
   \<and> content (snd (main world_boom state_no_bash)) ''/opt/sync/sync_error.log'' =
       ''2024-03-09 07:05:02: Exception running git sync script: [Errno 2] No such file or directory: ''
       @ [CHR 0x27] @ ''/bin/bash'' @ [CHR 0x27] @ nl
   \<and> writes_to ''/opt/sync/sync_error.log'' (new_events world_boom state_no_bash) =
       [''2024-03-09 07:05:02: Exception running git sync script: [Errno 2] No such file or directory: ''
        @ [CHR 0x27] @ ''/bin/bash'' @ [CHR 0x27] @ nl]"
  using spawn_failure_logged [of world_boom "''/opt/sync/git_sync_runner.py''" state_no_bash
      "''[Errno 2] No such file or directory: '' @ [CHR 0x27] @ ''/bin/bash'' @ [CHR 0x27]"]
  by (simp add: example_fields example_ok example_spawn example_paths example_timestamps
      exception_record_def)

text \<open>
  C1, as stated, fails. With the sync script missing and \<open>/bin/bash\<close> present, nothing is
  raised: the child is spawned, bash exits with code 127, and the run writes a Termination
  Record and no Exception Record. And with the sync script and \<open>/bin/bash\<close> both missing
  and an error log that can not be opened, the spawn raises, the handler's own \<open>open\<close>
  raises in turn, no record is written and the launcher ends with a traceback.
\<close>

theorem missing_script_counterexample:
  "files state_bash (SCRIPT_PATH ''/opt/sync/git_sync_runner.py'') = None
   \<and> fst (main world_no_script state_bash) = Exited 1
   \<and> content (snd (main world_no_script state_bash)) (ERROR_LOG ''/opt/sync/git_sync_runner.py'') =
       ''2024-03-09 07:05:02: Git sync process terminated unexpectedly'' @ nl
       @ ''Return code: 127'' @ nl
       @ ''Error output: /bin/bash: /opt/sync/auto_git_sync.sh: No such file or directory'' @ nl @ nl
   \<and> files state_no_bash (SCRIPT_PATH ''/opt/sync/git_sync_runner.py'') = None
   \<and> fst (main world_locked_log state_no_bash) = Uncaught (PyException permission_denied)
   \<and> content (snd (main world_locked_log state_no_bash)) (ERROR_LOG ''/opt/sync/git_sync_runner.py'') = []"
proof -
  let ?f = "''/opt/sync/git_sync_runner.py''"
  note ok = no_io_error_ok [OF example_same(11)]
  have a: "communicate world_no_script = Completed [] bash_complaint 127"
    "flush_fails world_no_script = False"
    by (simp_all add: world_no_script_def world_boom_def)
  have b: "decode_failure world_no_script bash_complaint = None"
    "logged_text world_no_script bash_complaint = Some bash_complaint"
    by (simp_all add: world_no_script_def world_boom_def decode_failure_def logged_text_def
        ascii_decode_def nl_def bash_complaint_def)
  have "files state_bash (SCRIPT_PATH ?f) = None" "files state_no_bash (SCRIPT_PATH ?f) = None"
    by (simp_all add: example_paths state_bash_def state_no_bash_def)
  moreover have "fst (main world_no_script state_bash) = Exited 1"
    by (simp add: completed_status [OF example_same(2) ok(2,5) example_same(21) example_fields(7) a(1)]
        b a sys_exit_def)
  moreover have "content (snd (main world_no_script state_bash)) (ERROR_LOG ?f) =
       ''2024-03-09 07:05:02: Git sync process terminated unexpectedly'' @ nl
       @ ''Return code: 127'' @ nl @ ''Error output: '' @ bash_complaint @ nl"
    unfolding completed_content [OF example_same(2) ok(2,5) example_same(21) example_fields(7) a(1)] b
    by (simp add: example_paths example_fields termination_record_def example_codes
        example_timestamps [OF example_same(30)])
  moreover have "main world_locked_log state_no_bash =
      (Uncaught (PyException permission_denied), before_try world_locked_log ?f state_no_bash)"
  proof -
    have s: "startup_ok world_locked_log"
      by (simp add: ok_defs world_locked_log_def world_boom_def)
    have h: "io_error world_locked_log Open_error_log_handler = Some (PyException permission_denied)"
      by (simp add: world_locked_log_def world_boom_def)
    show ?thesis
      by (simp add: main_spawn_fails [OF example_same(9) s example_spawn(2) [OF example_same(28)]]
          except_Exception_def open_append_def and_then_def h)
  qed
  ultimately show ?thesis
    by (simp add: bash_complaint_def example_content_before_try example_paths example_fields)
qed

text \<open>
  C2, as amended. For every run that reaches step 5 and in which step 5, spawning the
  subprocess and waiting for it, raises an exception that is an instance of \<open>Exception\<close>,
  if the handler can open the error log and write to it, the exception is caught, an
  Exception Record made of a timestamp and the description of the exception is appended to
  the error log, and the launcher ends with a non-zero status.
\<close>

theorem step5_exception_logged:
  assumes "abspath_file w = Inr f" and "startup_ok w" and "handler_ok w"
    and "step5_raises w f s (PyException e)"
    and "wf_tm (localtime w (clock s + 2))"
  shows "fst (main w s) = Exited (if flush_fails w then 120 else 1)
     \<and> fst (main w s) \<noteq> Exited 0
     \<and> content (snd (main w s)) (ERROR_LOG f) =
         content s (ERROR_LOG f) @ timestamp w s 2 @ '': Exception running git sync script: '' @ e @ nl
     \<and> is_timestamp (timestamp w s 2)"
  using main_step5_content [OF assms(1,2,4,3)] assms(5)
  by (simp add: exception_record_def timestamp_def is_timestamp_strftime sys_exit_def)

theorem step5_exception_logged_witness:
  "fst (main world_wait_fails state_bash) = Exited 1
   \<and> content (snd (main world_wait_fails state_bash)) ''/opt/sync/sync_error.log'' =
       ''2024-03-09 07:05:02: Exception running git sync script: '' @ nl
   \<and> is_timestamp ''2024-03-09 07:05:02''"
proof -
  note ok = no_io_error_ok [OF example_same(13)]
  have a: "step5_raises world_wait_fails ''/opt/sync/git_sync_runner.py'' state_bash (PyException [])"
    "flush_fails world_wait_fails = False"
    by (simp_all add: world_wait_fails_def world_boom_def step5_raises_def Popen_def state_bash_def)
  have b: "wf_tm (localtime world_wait_fails (clock state_bash + 2))"
    by (simp add: world_wait_fails_def world_boom_def wf_tm_def state_bash_def)
  show ?thesis
    using step5_exception_logged [OF example_same(4) ok(2,4) a(1) b]
    by (simp add: a example_fields example_paths example_timestamps [OF example_same(32)])
qed

text \<open>
  C2, as stated, fails for step 1: line 17 is in front of the try statement, so an exception
  of the path computation is not caught and nothing is written to any file. It fails for an
  exception of step 5 that is no instance of \<open>Exception\<close>. And it fails when the error log
  can not be opened: the handler's own \<open>open\<close> raises, and no record is written.
\<close>

theorem unresolved_path_counterexample:
  "abspath_file world_no_cwd = Inl (PyException ''[Errno 2] No such file or directory'')
   \<and> fst (main world_no_cwd state_bash) = Uncaught (PyException ''[Errno 2] No such file or directory'')
   \<and> files (snd (main world_no_cwd state_bash)) = files state_bash
   \<and> fst (main world_interrupt state_bash) = Uncaught (PyBaseException ''KeyboardInterrupt'')
   \<and> content (snd (main world_interrupt state_bash)) (ERROR_LOG ''/opt/sync/git_sync_runner.py'') = []
   \<and> step5_raises world_locked_log ''/opt/sync/git_sync_runner.py'' state_no_bash
        (PyException (''[Errno 2] No such file or directory: '' @ [CHR 0x27] @ ''/bin/bash'' @ [CHR 0x27]))
   \<and> main world_locked_log state_no_bash =
        (Uncaught (PyException permission_denied),
         before_try world_locked_log ''/opt/sync/git_sync_runner.py'' state_no_bash)
   \<and> content (before_try world_locked_log ''/opt/sync/git_sync_runner.py'' state_no_bash)
        (ERROR_LOG ''/opt/sync/git_sync_runner.py'') = []"
proof -
  let ?f = "''/opt/sync/git_sync_runner.py''"
  note ok = no_io_error_ok [OF example_same(12)]
  have a: "abspath_file world_no_cwd = Inl (PyException ''[Errno 2] No such file or directory'')"
    by (simp add: world_no_cwd_def)
  have b: "communicate world_interrupt = Raises (PyBaseException ''KeyboardInterrupt'')"
    by (simp add: world_interrupt_def world_boom_def)
  have c: "fst (Popen world_interrupt [''/bin/bash'', SCRIPT_PATH ?f] state_bash) = Inr ()"
    by (simp add: example_spawn example_same)
  note m = main_wait_raises [OF example_same(3) ok(2) c b]
  have "content (snd (main world_interrupt state_bash)) (ERROR_LOG ?f) = []"
    by (simp add: m example_content_before_try example_paths example_fields)
  moreover have "fst (main world_interrupt state_bash) = Uncaught (PyBaseException ''KeyboardInterrupt'')"
    by (simp add: m)
  moreover have "step5_raises world_locked_log ?f state_no_bash
        (PyException (''[Errno 2] No such file or directory: '' @ [CHR 0x27] @ ''/bin/bash'' @ [CHR 0x27]))"
    by (simp add: step5_raises_def example_spawn(2) [OF example_same(28)])
  moreover have "main world_locked_log state_no_bash =
      (Uncaught (PyException permission_denied), before_try world_locked_log ?f state_no_bash)"
  proof -
    have s: "startup_ok world_locked_log"
      by (simp add: ok_defs world_locked_log_def world_boom_def)
    have h: "io_error world_locked_log Open_error_log_handler = Some (PyException permission_denied)"
      by (simp add: world_locked_log_def world_boom_def)
    show ?thesis
      by (simp add: main_spawn_fails [OF example_same(9) s example_spawn(2) [OF example_same(28)]]
          except_Exception_def open_append_def and_then_def h)
  qed
  moreover have "content (before_try world_locked_log ?f state_no_bash) (ERROR_LOG ?f) = []"
    by (simp add: example_content_before_try example_paths example_fields)
  ultimately show ?thesis
    by (simp add: a main_unresolved setenv_def)
qed

text \<open>
  C4, as amended. For every run in which the child is spawned, \<open>process.communicate()\<close>
  returns and the error log can be opened and written, the launcher appends exactly one
  Termination Record to the error log; the record holds a timestamp of the format
  \<open>YYYY-MM-DD HH:MM:SS\<close> and, on the line \<open>Return code:\<close>, the decimal form of
  \<open>process.returncode\<close>, the exit code of the child as the launcher observed it. The
  only thing that can follow the record in the run is the Exception Record of a failed
  decoding of the captured error stream.
\<close>

theorem termination_record_written:
  assumes "abspath_file w = Inr f" and "startup_ok w" and "error_log_ok w"
    and "spawn_error w = None" and "files s ''/bin/bash'' \<noteq> None"
    and "communicate w = Completed out err returncode"
    and "wf_tm (localtime w (clock s + 2))"
  shows "\<exists>digits. is_decimal digits \<and> read_int digits = returncode
     \<and> content (snd (main w s)) (ERROR_LOG f) =
           content s (ERROR_LOG f)
           @ timestamp w s 2 @ '': Git sync process terminated unexpectedly'' @ nl
           @ ''Return code: '' @ digits @ nl
           @ (case logged_text w err of None \<Rightarrow> [] | Some x \<Rightarrow> ''Error output: '' @ x @ nl)
           @ (case decode_failure w err of
                Some (PyException e) \<Rightarrow> exception_record (timestamp w s 3) e
              | _ \<Rightarrow> [])
     \<and> is_timestamp (timestamp w s 2)"
proof (intro exI [of _ "str_int returncode"] conjI)
  show "is_decimal (str_int returncode)" by (rule is_decimal_str_int)
  show "read_int (str_int returncode) = returncode" by (rule read_int_str_int)
  show "is_timestamp (timestamp w s 2)"
    using assms(7) by (simp add: timestamp_def is_timestamp_strftime)
  show "content (snd (main w s)) (ERROR_LOG f) =
           content s (ERROR_LOG f)
           @ timestamp w s 2 @ '': Git sync process terminated unexpectedly'' @ nl
           @ ''Return code: '' @ str_int returncode @ nl
           @ (case logged_text w err of None \<Rightarrow> [] | Some x \<Rightarrow> ''Error output: '' @ x @ nl)
           @ (case decode_failure w err of
                Some (PyException e) \<Rightarrow> exception_record (timestamp w s 3) e
              | _ \<Rightarrow> [])"
    unfolding completed_content [OF assms(1-6)]
    by (simp add: termination_record_def)
qed

theorem termination_record_written_witness:
  "\<exists>digits. is_decimal digits \<and> read_int digits = 3
     \<and> content (snd (main world_boom state_bash)) ''/opt/sync/sync_error.log'' =
         ''2024-03-09 07:05:02: Git sync process terminated unexpectedly'' @ nl
         @ ''Return code: '' @ digits @ nl @ ''Error output: boom'' @ nl
     \<and> is_timestamp ''2024-03-09 07:05:02''"
proof -
  have a: "wf_tm (localtime world_boom (clock state_bash + 2))"
    by (simp add: world_boom_def wf_tm_def state_bash_def)
  show ?thesis
    using termination_record_written [OF example_fields(1) example_ok(2,5) example_fields(2,7,3) a]
    by (simp add: example_fields example_paths example_timestamps)
qed

text \<open>
  C4, as stated, fails. With \<open>SIGCHLD\<close> ignored the sync script exits with code 3 and the
  record says \<open>Return code: 0\<close>. When the sync script exits with code 3 and leaves a
  background process that holds its pipes, \<open>communicate()\<close> does not return and no record
  is written. And when the error log can not be opened, the child's exit is followed by no
  record but by a traceback.
\<close>

theorem child_exit_code_counterexample:
  "child_exit world_sigchld = Some 3
   \<and> content (snd (main world_sigchld state_bash)) (ERROR_LOG ''/opt/sync/git_sync_runner.py'') =
       ''2024-03-09 07:05:02: Git sync process terminated unexpectedly'' @ nl
       @ ''Return code: 0'' @ nl
   \<and> child_exit world_pipes_held = Some 3
   \<and> fst (main world_pipes_held state_bash) = Blocked
   \<and> content (snd (main world_pipes_held state_bash)) (ERROR_LOG ''/opt/sync/git_sync_runner.py'') = []
   \<and> child_exit world_locked_log = Some 3
   \<and> fst (main world_locked_log state_bash) = Uncaught (PyException permission_denied)
   \<and> content (snd (main world_locked_log state_bash)) (ERROR_LOG ''/opt/sync/git_sync_runner.py'') = []"
proof -
  let ?f = "''/opt/sync/git_sync_runner.py''"
  note ok = no_io_error_ok [OF example_same(16)]
  note ok' = no_io_error_ok [OF example_same(17)]
  have a: "child_exit world_sigchld = Some 3" "communicate world_sigchld = Completed [] [] 0"
    "child_exit world_pipes_held = Some 3" "communicate world_pipes_held = Blocks"
    "child_exit world_locked_log = Some 3" "communicate world_locked_log = Completed ''hello'' ''boom'' 3"
    "io_error world_locked_log Open_error_log = Some (PyException permission_denied)"
    "io_error world_locked_log Open_error_log_handler = Some (PyException permission_denied)"
    "startup_ok world_locked_log"
    by (simp_all add: world_sigchld_def world_pipes_held_def world_locked_log_def world_boom_def
        ok_defs)
  have p: "fst (Popen world_pipes_held [''/bin/bash'', SCRIPT_PATH ?f] state_bash) = Inr ()"
    "fst (Popen world_locked_log [''/bin/bash'', SCRIPT_PATH ?f] state_bash) = Inr ()"
    by (simp_all add: example_spawn example_same)
  have "content (snd (main world_sigchld state_bash)) (ERROR_LOG ?f) =
       ''2024-03-09 07:05:02: Git sync process terminated unexpectedly'' @ nl
       @ ''Return code: 0'' @ nl"
    unfolding completed_content [OF example_same(7) ok(2,5) example_same(26) example_fields(7) a(2)]
    by (simp add: example_paths example_fields termination_record_def example_codes
        logged_text_def decode_failure_def example_timestamps [OF example_same(35)])
  moreover have "main world_pipes_held state_bash = (Blocked, waiting world_pipes_held ?f state_bash)"
    by (rule main_blocks [OF example_same(8) ok'(2) p(1) a(4)])
  moreover have "main world_locked_log state_bash =
      (Uncaught (PyException permission_denied), waiting world_locked_log ?f state_bash)"
    by (simp add: main_resolved [OF example_same(9) a(9)] try_body_spawned [OF p(2)] a(6)
        log_termination_locked [OF a(7)] except_Exception_locked [OF a(8)])
  ultimately show ?thesis
    by (simp add: a example_content_before_try example_paths example_fields)
qed

text \<open>
  C6: the code does not do what the claim says. Here the sync script writes the word cafe,
  with an accent on the e, in Latin-1 to its error stream (the bytes \<open>caf\<close> and
  \<open>0xE9\<close>) and exits with code 1. Line 50 decodes the captured bytes with the strict
  default codec, which raises inside the \<open>with\<close> block after the first two writes: the
  Termination Record has no line \<open>Error output:\<close> although the captured error stream is
  not empty, the text of the child is in no log, and the handler adds an Exception Record
  that reports the decoding error as a failure of running the script.
\<close>

theorem undecodable_stderr_lost:
  "communicate world_latin1 = Completed [] (''caf'' @ [CHR 0xE9]) 1
   \<and> fst (main world_latin1 state_bash) = Exited 1
   \<and> content (snd (main world_latin1 state_bash)) (ERROR_LOG ''/opt/sync/git_sync_runner.py'') =
       ''2024-03-09 07:05:02: Git sync process terminated unexpectedly'' @ nl
       @ ''Return code: 1'' @ nl
       @ ''2024-03-09 07:05:03: Exception running git sync script: codec can not decode bytes'' @ nl"
proof -
  let ?f = "''/opt/sync/git_sync_runner.py''"
  note ok = no_io_error_ok [OF example_same(14)]
  have a: "communicate world_latin1 = Completed [] cafe_latin1 1"
    "flush_fails world_latin1 = False"
    by (simp_all add: world_latin1_def world_boom_def)
  have b: "decode_failure world_latin1 cafe_latin1 = Some (PyException ''codec can not decode bytes'')"
    "logged_text world_latin1 cafe_latin1 = None"
    by (simp_all add: world_latin1_def world_boom_def decode_failure_def logged_text_def
        ascii_decode_def cafe_latin1_def)
  have "fst (main world_latin1 state_bash) = Exited 1"
    by (simp add: completed_status [OF example_same(5) ok(2,5) example_same(24) example_fields(7) a(1)]
        b a sys_exit_def)
  moreover have "content (snd (main world_latin1 state_bash)) (ERROR_LOG ?f) =
       ''2024-03-09 07:05:02: Git sync process terminated unexpectedly'' @ nl
       @ ''Return code: 1'' @ nl
       @ ''2024-03-09 07:05:03: Exception running git sync script: codec can not decode bytes'' @ nl"
    unfolding completed_content [OF example_same(5) ok(2,5) example_same(24) example_fields(7) a(1)] b
    by (simp add: example_paths example_fields termination_record_def exception_record_def
        example_codes example_timestamps [OF example_same(33)])
  ultimately show ?thesis using a(1) by (simp add: cafe_latin1_def)
qed

text \<open>
  C7. Both logs only grow: whatever a file held before the run is still the beginning of
  what it holds after it, and no file disappears. Every write to the error log, of a
  Termination Record or of an Exception Record, comes after the two writes of the Launch
  Record to the startup log, and no write to the startup log comes after it.
\<close>

theorem launch_record_first:
  "(\<forall>p. prefix (content s p) (content (snd (main w s)) p)
        \<and> (files s p \<noteq> None \<longrightarrow> files (snd (main w s)) p \<noteq> None))
   \<and> (abspath_file w = Inr f \<longrightarrow>
        (\<forall>i < length (new_events w s). touches (ERROR_LOG f) (new_events w s ! i) \<longrightarrow>
           (\<exists>j k. j < k \<and> k < i
              \<and> new_events w s ! j =
                  Append (LOG_FILE f) (timestamp w s 0 @ '': Starting RebasedCode Git Sync Runner'' @ nl)
              \<and> new_events w s ! k =
                  Append (LOG_FILE f) (timestamp w s 1 @ '': Script path: '' @ SCRIPT_PATH f @ nl))
           \<and> (\<forall>m. i \<le> m \<and> m < length (new_events w s)
                 \<longrightarrow> \<not> touches (LOG_FILE f) (new_events w s ! m))))"
proof (intro conjI allI impI)
  fix p
  show "prefix (content s p) (content (snd (main w s)) p)" using files_grow [of s p w] by simp
  assume "files s p \<noteq> None"
  then show "files (snd (main w s)) p \<noteq> None" using files_grow [of s p w] by simp
next
  fix i
  assume f: "abspath_file w = Inr f" and i: "i < length (new_events w s)"
    and t: "touches (ERROR_LOG f) (new_events w s ! i)"
  have ok: "startup_ok w"
  proof (rule ccontr)
    assume "\<not> startup_ok w"
    from new_events_startup_fails [OF f this, of s] i t show False by simp
  qed
  from new_events_shape [OF f ok, of s] obtain tail
    where e: "new_events w s = startup_events w f s @ tail"
      and tail: "\<forall>e \<in> set tail. \<not> touches (LOG_FILE f) e"
    by blast
  have len: "length (startup_events w f s) = 7" by (simp add: startup_events_def)
  have quiet: "\<forall>x \<in> set (startup_events w f s). \<not> touches (ERROR_LOG f) x"
    by (simp add: startup_events_def LOG_FILE_neq_ERROR_LOG)
  have i7: "7 \<le> i"
  proof (rule ccontr)
    assume "\<not> 7 \<le> i"
    then have "i < length (startup_events w f s)" using len by simp
    then have "new_events w s ! i \<in> set (startup_events w f s)"
      by (simp add: e nth_append)
    with quiet t show False by blast
  qed
  have "new_events w s ! 2 =
      Append (LOG_FILE f) (timestamp w s 0 @ '': Starting RebasedCode Git Sync Runner'' @ nl)"
    and "new_events w s ! 3 =
      Append (LOG_FILE f) (timestamp w s 1 @ '': Script path: '' @ SCRIPT_PATH f @ nl)"
    by (simp_all add: e startup_events_def nth_append)
  moreover have "(2::nat) < 3" "3 < i" using i7 by simp_all
  ultimately show "\<exists>j k. j < k \<and> k < i
      \<and> new_events w s ! j =
          Append (LOG_FILE f) (timestamp w s 0 @ '': Starting RebasedCode Git Sync Runner'' @ nl)
      \<and> new_events w s ! k =
          Append (LOG_FILE f) (timestamp w s 1 @ '': Script path: '' @ SCRIPT_PATH f @ nl)"
    by blast
  fix m
  assume m: "i \<le> m \<and> m < length (new_events w s)"
  with i7 have "7 \<le> m" by simp
  then have "new_events w s ! m = tail ! (m - 7)"
    using len by (simp add: e nth_append)
  moreover have "m - 7 < length tail"
    using m \<open>7 \<le> m\<close> len unfolding e by (simp only: length_append) arith
  ultimately have "new_events w s ! m \<in> set tail" by simp
  with tail show "\<not> touches (LOG_FILE f) (new_events w s ! m)" by blast
qed

theorem launch_record_first_witness:
  "touches ''/opt/sync/sync_error.log'' (new_events world_boom state_bash ! 9)
   \<and> (\<exists>j k. j < k \<and> k < 9
        \<and> new_events world_boom state_bash ! j =
            Append ''/opt/sync/sync_log.txt'' (''2024-03-09 07:05:00: Starting RebasedCode Git Sync Runner'' @ nl)
        \<and> new_events world_boom state_bash ! k =
            Append ''/opt/sync/sync_log.txt'' (''2024-03-09 07:05:01: Script path: /opt/sync/auto_git_sync.sh'' @ nl))
   \<and> prefix (content state_bash ''/bin/bash'') (content (snd (main world_boom state_bash)) ''/bin/bash'')
   \<and> files (snd (main world_boom state_bash)) ''/bin/bash'' \<noteq> None"
proof -
  have a: "length (new_events world_boom state_bash) = 12"
    "touches ''/opt/sync/sync_error.log'' (new_events world_boom state_bash ! 9)"
    by (simp_all add: example_events startup_events_def nth_append)
  note t = launch_record_first [of state_bash world_boom "''/opt/sync/git_sync_runner.py''"]
  from t have "prefix (content state_bash ''/bin/bash'') (content (snd (main world_boom state_bash)) ''/bin/bash'')
      \<and> files (snd (main world_boom state_bash)) ''/bin/bash'' \<noteq> None"
    using example_fields(7) by blast
  moreover from t have "\<forall>i < length (new_events world_boom state_bash).
      touches (ERROR_LOG ''/opt/sync/git_sync_runner.py'') (new_events world_boom state_bash ! i) \<longrightarrow>
        (\<exists>j k. j < k \<and> k < i
          \<and> new_events world_boom state_bash ! j =
              Append (LOG_FILE ''/opt/sync/git_sync_runner.py'')
                (timestamp world_boom state_bash 0 @ '': Starting RebasedCode Git Sync Runner'' @ nl)
          \<and> new_events world_boom state_bash ! k =
              Append (LOG_FILE ''/opt/sync/git_sync_runner.py'')
                (timestamp world_boom state_bash 1 @ '': Script path: ''
                   @ SCRIPT_PATH ''/opt/sync/git_sync_runner.py'' @ nl))"
    using example_fields(1) by blast
  then have "touches (ERROR_LOG ''/opt/sync/git_sync_runner.py'') (new_events world_boom state_bash ! 9) \<longrightarrow>
        (\<exists>j k. j < k \<and> k < 9
          \<and> new_events world_boom state_bash ! j =
              Append (LOG_FILE ''/opt/sync/git_sync_runner.py'')
                (timestamp world_boom state_bash 0 @ '': Starting RebasedCode Git Sync Runner'' @ nl)
          \<and> new_events world_boom state_bash ! k =
              Append (LOG_FILE ''/opt/sync/git_sync_runner.py'')
                (timestamp world_boom state_bash 1 @ '': Script path: ''
                   @ SCRIPT_PATH ''/opt/sync/git_sync_runner.py'' @ nl))"
    using a(1) by simp
  with a(2) have "\<exists>j k. j < k \<and> k < 9
        \<and> new_events world_boom state_bash ! j =
            Append ''/opt/sync/sync_log.txt'' (''2024-03-09 07:05:00: Starting RebasedCode Git Sync Runner'' @ nl)
        \<and> new_events world_boom state_bash ! k =
            Append ''/opt/sync/sync_log.txt'' (''2024-03-09 07:05:01: Script path: /opt/sync/auto_git_sync.sh'' @ nl)"
    by (simp add: example_fields example_paths example_timestamps example_timestamp_Suc)
  ultimately show ?thesis using a(2) by blast
qed

text \<open>
  C5, as amended. For every run in which the launcher's own path is resolved and the startup
  log can be opened and written (the path has to be text that the codec of the log can
  encode), the run writes to the startup log exactly twice, the start announcement and the
  resolved script path, each with a timestamp in front and a line break at its end, and the
  log keeps what it held. When the path has no line break in it these are exactly two new
  lines. The resolved script path is the launcher's directory joined with
  \<open>auto_git_sync.sh\<close>.
\<close>

theorem startup_log_two_lines:
  assumes "abspath_file w = Inr f" and "startup_log_ok w"
  shows "writes_to (LOG_FILE f) (new_events w s) =
           [timestamp w s 0 @ '': Starting RebasedCode Git Sync Runner'' @ nl,
            timestamp w s 1 @ '': Script path: '' @ SCRIPT_PATH f @ nl]
     \<and> content (snd (main w s)) (LOG_FILE f) = content s (LOG_FILE f) @ appended w s (LOG_FILE f)
     \<and> (CHR 0x0A \<notin> set f \<longrightarrow>
          lines_of (appended w s (LOG_FILE f)) =
            [timestamp w s 0 @ '': Starting RebasedCode Git Sync Runner'',
             timestamp w s 1 @ '': Script path: '' @ SCRIPT_PATH f])
     \<and> SCRIPT_PATH f = os_path_join (os_path_dirname f) ''auto_git_sync.sh''
     \<and> SCRIPT_PATH f = os_path_dirname f
          @ (if os_path_dirname f = [] \<or> last (os_path_dirname f) = CHR ''/'' then [] else ''/'')
          @ ''auto_git_sync.sh''"
proof (intro conjI impI)
  show "writes_to (LOG_FILE f) (new_events w s) =
           [timestamp w s 0 @ '': Starting RebasedCode Git Sync Runner'' @ nl,
            timestamp w s 1 @ '': Script path: '' @ SCRIPT_PATH f @ nl]"
    using assms by (rule startup_log_writes)
  show "content (snd (main w s)) (LOG_FILE f) = content s (LOG_FILE f) @ appended w s (LOG_FILE f)"
    by (simp add: appended_def startup_log_content [OF assms])
  show "SCRIPT_PATH f = os_path_join (os_path_dirname f) ''auto_git_sync.sh''"
    by (simp add: SCRIPT_PATH_def)
  show "SCRIPT_PATH f = os_path_dirname f
          @ (if os_path_dirname f = [] \<or> last (os_path_dirname f) = CHR ''/'' then [] else ''/'')
          @ ''auto_git_sync.sh''"
    by (rule SCRIPT_PATH_eq)
next
  assume n: "CHR 0x0A \<notin> set f"
  have a: "CHR 0x0A \<notin> set (timestamp w s 0 @ '': Starting RebasedCode Git Sync Runner'')"
    by (simp add: nl_notin_timestamp)
  have b: "CHR 0x0A \<notin> set (timestamp w s 1 @ '': Script path: '' @ SCRIPT_PATH f)"
    using nl_notin_SCRIPT_PATH [OF n] by (simp add: nl_notin_timestamp)
  show "lines_of (appended w s (LOG_FILE f)) =
            [timestamp w s 0 @ '': Starting RebasedCode Git Sync Runner'',
             timestamp w s 1 @ '': Script path: '' @ SCRIPT_PATH f]"
    unfolding appended_startup_log [OF assms]
    by (simp only: lines_of_line [OF a] lines_of_line [OF b] lines_of.simps)
qed

theorem startup_log_two_lines_witness:
  "writes_to ''/opt/sync/sync_log.txt'' (new_events world_boom state_bash) =
     [''2024-03-09 07:05:00: Starting RebasedCode Git Sync Runner'' @ nl,
      ''2024-03-09 07:05:01: Script path: /opt/sync/auto_git_sync.sh'' @ nl]
   \<and> lines_of (appended world_boom state_bash ''/opt/sync/sync_log.txt'') =
     [''2024-03-09 07:05:00: Starting RebasedCode Git Sync Runner'',
      ''2024-03-09 07:05:01: Script path: /opt/sync/auto_git_sync.sh'']
   \<and> SCRIPT_PATH ''/opt/sync/git_sync_runner.py'' = ''/opt/sync/auto_git_sync.sh''"
  using startup_log_two_lines [OF example_fields(1) example_ok(1), of state_bash]
  by (simp add: example_paths example_timestamps example_timestamp_Suc example_fields)

text \<open>
  C5, as stated, fails. A launcher in a directory whose name has a line break in it adds
  three lines to the startup log. A launcher in a directory whose name has the byte
  \<open>0xFF\<close> in it adds one line: the write of the path raises \<open>UnicodeEncodeError\<close>, and the
  run ends there. And a run in which the launcher's own path can not be resolved ends at
  line 17, in front of every write.
\<close>

theorem startup_log_lines_counterexample:
  "abspath_file world_newline = Inr (''/opt/sy'' @ nl @ ''nc/git_sync_runner.py'')
   \<and> lines_of (appended world_newline state_bash (LOG_FILE (''/opt/sy'' @ nl @ ''nc/git_sync_runner.py''))) =
       [''2024-03-09 07:05:00: Starting RebasedCode Git Sync Runner'',
        ''2024-03-09 07:05:01: Script path: /opt/sy'',
        ''nc/auto_git_sync.sh'']
   \<and> abspath_file world_badbyte = Inr (''/opt/sy'' @ [CHR 0xFF] @ ''nc/git_sync_runner.py'')
   \<and> fst (main world_badbyte state_bash) = Uncaught (PyException ''codec can not encode character'')
   \<and> lines_of (appended world_badbyte state_bash (LOG_FILE (''/opt/sy'' @ [CHR 0xFF] @ ''nc/git_sync_runner.py''))) =
       [''2024-03-09 07:05:00: Starting RebasedCode Git Sync Runner'']
   \<and> new_events world_no_cwd state_bash = [Setenv ''PYTHONUNBUFFERED'' ''1'']"
proof -
  have a: "abspath_file world_newline = Inr newline_file"
    "startup_log_ok world_newline"
    by (simp_all add: world_newline_def world_boom_def ok_defs)
  have p: "SCRIPT_PATH newline_file = ''/opt/sy'' @ nl @ ''nc/auto_git_sync.sh''"
    by (simp add: SCRIPT_PATH_def os_path_join_def os_path_dirname_def newline_file_def nl_def)
  have "lines_of (appended world_newline state_bash (LOG_FILE newline_file)) =
       [''2024-03-09 07:05:00: Starting RebasedCode Git Sync Runner'',
        ''2024-03-09 07:05:01: Script path: /opt/sy'',
        ''nc/auto_git_sync.sh'']"
    unfolding appended_startup_log [OF a] p
    by (simp add: example_timestamps [OF example_same(38)] example_timestamp_Suc [OF example_same(38)]
        example_fields nl_def)
  moreover have "new_events world_no_cwd state_bash = [Setenv ''PYTHONUNBUFFERED'' ''1'']"
    by (simp add: new_events_def main_unresolved world_no_cwd_def setenv_def)
  moreover have "fst (main world_badbyte state_bash) = Uncaught (PyException ''codec can not encode character'')
      \<and> lines_of (appended world_badbyte state_bash (LOG_FILE badbyte_file)) =
          [''2024-03-09 07:05:00: Starting RebasedCode Git Sync Runner'']"
  proof -
    have b: "abspath_file world_badbyte = Inr badbyte_file"
      "io_error world_badbyte Open_startup_log = None"
      "io_error world_badbyte Write_start_line = None"
      "io_error world_badbyte Write_path_line = Some (PyException ''codec can not encode character'')"
      by (simp_all add: world_badbyte_def world_boom_def)
    note l = log_startup_path_line_fails [OF b(2,3,4), of badbyte_file "at_start world_badbyte state_bash"]
    note m = main_startup_fails [OF b(1) l(1)]
    have "appended world_badbyte state_bash (LOG_FILE badbyte_file) =
        timestamp world_badbyte state_bash 0 @ '': Starting RebasedCode Git Sync Runner'' @ nl"
      by (simp add: appended_def m l(2) at_start_fields timestamp_def)
    then have "lines_of (appended world_badbyte state_bash (LOG_FILE badbyte_file)) =
          [''2024-03-09 07:05:00: Starting RebasedCode Git Sync Runner'']"
      by (simp add: example_timestamps [OF example_same(39)] example_fields nl_def)
    then show ?thesis by (simp add: m)
  qed
  ultimately show ?thesis
    using a(1) by (simp add: newline_file_def badbyte_file_def world_badbyte_def world_boom_def)
qed




end
